theory Spec2Isabelle
  imports Main "HOL-Library.Char_ord" "HOL-Library.List_Lexorder" "HOL-Library.Sublist"
    "HOL-Library.Multiset"
begin

section \<open>Host facilities used by the extension\<close>

text \<open>
  The extension is event-driven TypeScript on Node.js. Its own code is embedded below
  function by function; what it calls in Node (the \<open>path\<close>, \<open>fs\<close>, \<open>os\<close> and
  \<open>child_process\<close> modules, promises, timers) is modelled in this section, as far as
  the extension uses it.
\<close>

subsection \<open>Strings and paths\<close>

text \<open>The backslash of the Windows paths, written by its code.\<close>

definition bs :: char where
  "bs = CHR 0x5C"

text \<open>\<open>String.prototype.toLowerCase\<close> on the ASCII range.\<close>

definition lower_char :: "char \<Rightarrow> char" where
  "lower_char c =
     (let n = (of_char c :: nat) in if 65 \<le> n \<and> n \<le> 90 then char_of (n + 32) else c)"

definition toLowerCase :: "string \<Rightarrow> string" where
  "toLowerCase s = map lower_char s"

text \<open>
  The \<open>path\<close> module. \<open>os.platform()\<close> selects the flavour: on \<open>win32\<close> both
  slashes separate segments and \<open>join\<close> writes a backslash, elsewhere only \<open>/\<close>
  does. Drive prefixes are not interpreted. \<open>path_join\<close> is \<open>path.join\<close> for a
  normalised directory and one further segment, which is how the extension calls it.
\<close>

definition is_sep :: "string \<Rightarrow> char \<Rightarrow> bool" where
  "is_sep plat c = (c = CHR ''/'' \<or> (plat = ''win32'' \<and> c = bs))"

definition path_sep :: "string \<Rightarrow> string" where
  "path_sep plat = (if plat = ''win32'' then [bs] else ''/'')"

definition path_join :: "string \<Rightarrow> string \<Rightarrow> string \<Rightarrow> string" where
  "path_join plat dir seg = dir @ path_sep plat @ seg"

text \<open>The last segment of a path, trailing separators ignored.\<close>

definition last_segment :: "string \<Rightarrow> string \<Rightarrow> string" where
  "last_segment plat p =
     rev (takeWhile (\<lambda>c. \<not> is_sep plat c) (dropWhile (is_sep plat) (rev p)))"

text \<open>
  \<open>path.extname\<close>: from the last dot of the last segment to its end; empty when there is
  no dot, when the only dot is the segment's first character, and for the segment \<open>..\<close>.
\<close>

definition extname :: "string \<Rightarrow> string \<Rightarrow> string" where
  "extname plat p =
     (let b = last_segment plat p;
          after_dot = takeWhile (\<lambda>c. c \<noteq> CHR ''.'') (rev b)
      in if length after_dot = length b then []
         else if length b - length after_dot - 1 = 0 \<or> b = ''..'' then []
         else drop (length b - length after_dot - 1) b)"

text \<open>
  \<open>path.basename(p, suffix)\<close>: the last segment, without \<open>suffix\<close> when the segment
  ends with it and is longer than it.
\<close>

definition basename :: "string \<Rightarrow> string \<Rightarrow> string \<Rightarrow> string" where
  "basename plat p suf =
     (let b = last_segment plat p
      in if suf \<noteq> [] \<and> suf = p then []
         else if suf \<noteq> [] \<and> suffix suf b \<and> suf \<noteq> b then take (length b - length suf) b
         else b)"

subsection \<open>Errors\<close>

text \<open>
  Every \<open>Error\<close> the converter throws, by the message it is built from:
  \<^item> \<open>NotInstalled\<close>: "LibreOffice is not installed or not found in PATH. ..."
  \<^item> \<open>SpawnFailure st m\<close>: "Failed to start LibreOffice: m" (for the raster stage
    "Failed to start LibreOffice for image conversion: m")
  \<^item> \<open>OutputMissing\<close>: "PDF file was not created. LibreOffice may have encountered an error."
  \<^item> \<open>NonZeroExit st code err\<close>: "LibreOffice conversion failed with code code. Error: err"
    (for the raster stage "LibreOffice image conversion failed ...")
  \<^item> \<open>Timeout st\<close>: "Conversion timeout. ..." (for the raster stage "Image conversion timeout.")
  \<^item> \<open>NoOutputFiles\<close>: "No PNG files were created from PDF."
  \<^item> \<open>ReadError e\<close>: "Error reading converted images: e"
  \<^item> \<open>FsError p\<close>: what \<open>fs.statSync\<close>, \<open>fs.mkdirSync\<close> and \<open>fs.readdirSync\<close>
    throw at path \<open>p\<close>.
\<close>

datatype stage = PdfStage | ImageStage

datatype error =
    NotInstalled
  | SpawnFailure stage string
  | OutputMissing
  | NonZeroExit stage "int option" string
  | Timeout stage
  | NoOutputFiles
  | ReadError error
  | FsError string

subsection \<open>The file system\<close>

text \<open>
  What the extension observes of the disk: \<open>stat p\<close> is the modification time (in
  milliseconds) of an existing path, \<open>readdir p\<close> the entries of a readable directory
  in the order the system lists them, \<open>mkdir p\<close> the modification time a directory
  created at \<open>p\<close> would get (\<open>None\<close> when it cannot be created).
\<close>

record fs =
  stat :: "string \<Rightarrow> int option"
  readdir :: "string \<Rightarrow> string list option"
  mkdir :: "string \<Rightarrow> int option"

definition existsSync :: "fs \<Rightarrow> string \<Rightarrow> bool" where
  "existsSync d p = (stat d p \<noteq> None)"

definition statSync :: "fs \<Rightarrow> string \<Rightarrow> error + int" where
  "statSync d p = (case stat d p of None \<Rightarrow> Inl (FsError p) | Some m \<Rightarrow> Inr m)"

definition mkdirSync :: "fs \<Rightarrow> string \<Rightarrow> error + fs" where
  "mkdirSync d p =
     (case mkdir d p of
        None \<Rightarrow> Inl (FsError p)
      | Some m \<Rightarrow> Inr (d\<lparr>stat := (stat d)(p \<mapsto> m), readdir := (readdir d)(p \<mapsto> [])\<rparr>))"

definition readdirSync :: "fs \<Rightarrow> string \<Rightarrow> error + string list" where
  "readdirSync d p = (case readdir d p of None \<Rightarrow> Inl (FsError p) | Some fs \<Rightarrow> Inr fs)"

subsection \<open>Child processes, timers and promises\<close>

text \<open>
  What a spawned process does is a list of events, each with the milliseconds elapsed
  since the previous one (since the spawn, for the first):
  \<^item> \<open>EvError m\<close>: the \<open>error\<close> event; in this program it only arises when the
    executable could not be started, and Node then holds no process;
  \<^item> \<open>EvStderr s\<close>: a \<open>data\<close> chunk on standard error;
  \<^item> \<open>EvExit\<close>: the process has ended and Node drops its handle. The extension
    listens to no \<open>exit\<close> event, so no listener runs;
  \<^item> \<open>EvClose code\<close>: the \<open>close\<close> event, \<open>None\<close> for the \<open>null\<close> code of a
    process ended by a signal. It comes once the process has ended and its output
    streams are closed, which can be long after the exit when another process holds
    the streams open;
  \<^item> \<open>EvFs d\<close>: the disk is now \<open>d\<close> (the child, or anyone else, wrote to it).
\<close>

datatype event =
    EvError string
  | EvStderr string
  | EvExit
  | EvClose "int option"
  | EvFs fs

type_synonym trace = "(nat \<times> event) list"

text \<open>
  \<open>setTimeout(cb, delay)\<close> next to the listeners: the events that arrive less than
  \<open>delay\<close> milliseconds after the spawn are delivered, then the timer's callback runs,
  then the later events are delivered. No timer of the extension is ever cleared.
\<close>

fun early :: "nat \<Rightarrow> trace \<Rightarrow> event list" where
  "early r [] = []"
| "early r ((d, e) # evs) = (if d < r then e # early (r - d) evs else [])"

fun late :: "nat \<Rightarrow> trace \<Rightarrow> event list" where
  "late r [] = []"
| "late r ((d, e) # evs) = (if d < r then late (r - d) evs else e # map snd evs)"

datatype tick = Ev event | Timer

definition schedule :: "nat \<Rightarrow> trace \<Rightarrow> tick list" where
  "schedule delay tr = map Ev (early delay tr) @ Timer # map Ev (late delay tr)"

text \<open>A promise settles once; \<open>resolve\<close> and \<open>reject\<close> on a settled promise do nothing.\<close>

datatype 'a promise = Pending | Resolved 'a | Rejected error

text \<open>
  A \<open>ChildProcess\<close>: how it was spawned, whether Node still holds a running process
  for it, and how many termination signals it was sent. \<open>kill()\<close> sends \<open>SIGTERM\<close> to a
  running process, which is taken to succeed, and does nothing once the process has
  ended, whether or not its \<open>close\<close> event has come.
\<close>

record proc =
  command :: string
  args :: "string list"
  alive :: bool
  sigterms :: nat

definition kill :: "proc \<Rightarrow> proc" where
  "kill p = (if alive p then p\<lparr>sigterms := Suc (sigterms p)\<rparr> else p)"

text \<open>
  The state one \<open>new Promise((resolve, reject) => ...)\<close> block of the converter closes
  over: its promise, the \<open>errorOutput\<close> variable, the child, and the disk as it is now.
\<close>

record 'a task =
  promise :: "'a promise"
  errorOutput :: string
  child :: proc
  tdisk :: fs

definition resolve :: "'a \<Rightarrow> 'a task \<Rightarrow> 'a task" where
  "resolve v t = (case promise t of Pending \<Rightarrow> t\<lparr>promise := Resolved v\<rparr> | _ \<Rightarrow> t)"

definition reject :: "error \<Rightarrow> 'a task \<Rightarrow> 'a task" where
  "reject e t = (case promise t of Pending \<Rightarrow> t\<lparr>promise := Rejected e\<rparr> | _ \<Rightarrow> t)"

text \<open>What the runtime does on an event before it calls the listeners.\<close>

definition runtime :: "event \<Rightarrow> 'a task \<Rightarrow> 'a task" where
  "runtime e t =
     (case e of
        EvError m \<Rightarrow> t\<lparr>child := (child t)\<lparr>alive := False\<rparr>\<rparr>
      | EvExit \<Rightarrow> t\<lparr>child := (child t)\<lparr>alive := False\<rparr>\<rparr>
      | EvClose c \<Rightarrow> t\<lparr>child := (child t)\<lparr>alive := False\<rparr>\<rparr>
      | EvStderr s \<Rightarrow> t
      | EvFs d \<Rightarrow> t\<lparr>tdisk := d\<rparr>)"

definition deliver ::
  "(event \<Rightarrow> 'a task \<Rightarrow> 'a task) \<Rightarrow> ('a task \<Rightarrow> 'a task) \<Rightarrow> 'a task \<Rightarrow> tick \<Rightarrow> 'a task" where
  "deliver listeners on_timeout t k =
     (case k of Ev e \<Rightarrow> listeners e (runtime e t) | Timer \<Rightarrow> on_timeout t)"

text \<open>
  Deliver ticks until the promise settles. The result is the task at that moment, which
  is when the awaiting caller goes on, and the ticks still to come.
\<close>

fun until_settled ::
  "('a task \<Rightarrow> tick \<Rightarrow> 'a task) \<Rightarrow> tick list \<Rightarrow> 'a task \<Rightarrow> 'a task \<times> tick list" where
  "until_settled step [] t = (t, [])"
| "until_settled step (k # ks) t =
     (let t' = step t k in
      if promise t' \<noteq> Pending then (t', ks) else until_settled step ks t')"

text \<open>
  The extension host: the platform and temporary directory \<open>os\<close> reports, the disk,
  the behaviours of the processes still to be spawned (in spawn order; a process with
  no behaviour left never emits an event), every child spawned so far (in spawn order,
  in its final state), and how a file path is shown to the webview.
\<close>

record host =
  platform :: string
  tmpdir :: string
  disk :: fs
  behaviours :: "trace list"
  procs :: "proc list"
  asWebviewUri :: "string \<Rightarrow> string"

text \<open>
  \<open>spawn(cmd, as)\<close> with listeners and a timer attached. \<open>spawn_task\<close> gives the
  task at the moment its promise settles and the task as the remaining ticks leave it.
  \<open>spawn_await\<close> is the same seen by the caller that awaits the promise: the promise
  and the disk are those of the moment of settling; the child is recorded in its final
  state.
\<close>

definition next_behaviour :: "host \<Rightarrow> trace" where
  "next_behaviour h = (case behaviours h of [] \<Rightarrow> [] | b # _ \<Rightarrow> b)"

definition task0 :: "string \<Rightarrow> string list \<Rightarrow> fs \<Rightarrow> 'a task" where
  "task0 cmd as d =
     \<lparr>promise = Pending, errorOutput = [],
      child = \<lparr>command = cmd, args = as, alive = True, sigterms = 0\<rparr>,
      tdisk = d\<rparr>"

definition spawn_task ::
  "(event \<Rightarrow> 'a task \<Rightarrow> 'a task) \<Rightarrow> ('a task \<Rightarrow> 'a task) \<Rightarrow> nat \<Rightarrow> string \<Rightarrow> string list
     \<Rightarrow> host \<Rightarrow> 'a task \<times> 'a task" where
  "spawn_task listeners on_timeout delay cmd as h =
     (let (t1, rest) = until_settled (deliver listeners on_timeout)
                         (schedule delay (next_behaviour h)) (task0 cmd as (disk h))
      in (t1, foldl (deliver listeners on_timeout) t1 rest))"

definition spawn_await ::
  "(event \<Rightarrow> 'a task \<Rightarrow> 'a task) \<Rightarrow> ('a task \<Rightarrow> 'a task) \<Rightarrow> nat \<Rightarrow> string \<Rightarrow> string list
     \<Rightarrow> host \<Rightarrow> 'a promise \<times> host" where
  "spawn_await listeners on_timeout delay cmd as h =
     (let (t1, t2) = spawn_task listeners on_timeout delay cmd as h
      in (promise t1,
          h\<lparr>disk := tdisk t1, behaviours := tl (behaviours h), procs := procs h @ [child t2]\<rparr>))"

section \<open>libreoffice-converter.ts\<close>

subsection \<open>getLibreOfficePath\<close>

definition possiblePaths :: "string list" where
  "possiblePaths =
     [''C:'' @ [bs] @ ''Program Files'' @ [bs] @ ''LibreOffice'' @ [bs] @ ''program''
        @ [bs] @ ''soffice.exe'',
      ''C:'' @ [bs] @ ''Program Files (x86)'' @ [bs] @ ''LibreOffice'' @ [bs] @ ''program''
        @ [bs] @ ''soffice.exe'']"

definition getLibreOfficePath :: "string \<Rightarrow> (string \<Rightarrow> bool) \<Rightarrow> string" where
  "getLibreOfficePath plat exists =
     (if plat = ''darwin'' then ''/Applications/LibreOffice.app/Contents/MacOS/soffice''
      else if plat = ''win32'' then
        (case find exists possiblePaths of Some p \<Rightarrow> p | None \<Rightarrow> ''soffice.exe'')
      else ''libreoffice'')"

subsection \<open>checkLibreOfficeInstallation\<close>

definition probe_listeners :: "event \<Rightarrow> bool task \<Rightarrow> bool task" where
  "probe_listeners e t =
     (case e of
        EvError m \<Rightarrow> resolve False t
      | EvClose code \<Rightarrow> resolve (code = Some 0) t
      | EvStderr s \<Rightarrow> t
      | EvExit \<Rightarrow> t
      | EvFs d \<Rightarrow> t)"

definition probe_timeout :: "bool task \<Rightarrow> bool task" where
  "probe_timeout t = resolve False (t\<lparr>child := kill (child t)\<rparr>)"

definition checkLibreOfficeInstallation :: "host \<Rightarrow> bool promise \<times> host" where
  "checkLibreOfficeInstallation h =
     spawn_await probe_listeners probe_timeout 5000
       (getLibreOfficePath (platform h) (existsSync (disk h))) [''--version''] h"

subsection \<open>convertToPDF\<close>

definition pdf_listeners :: "string \<Rightarrow> event \<Rightarrow> string task \<Rightarrow> string task" where
  "pdf_listeners pdfPath e t =
     (case e of
        EvStderr data \<Rightarrow> t\<lparr>errorOutput := errorOutput t @ data\<rparr>
      | EvError m \<Rightarrow> reject (SpawnFailure PdfStage m) t
      | EvClose code \<Rightarrow>
          (if code = Some 0 then
             (if existsSync (tdisk t) pdfPath then resolve pdfPath t
              else reject OutputMissing t)
           else reject (NonZeroExit PdfStage code (errorOutput t)) t)
      | EvExit \<Rightarrow> t
      | EvFs d \<Rightarrow> t)"

definition pdf_timeout :: "string task \<Rightarrow> string task" where
  "pdf_timeout t = reject (Timeout PdfStage) (t\<lparr>child := kill (child t)\<rparr>)"

text \<open>The \<open>new Promise\<close> block that ends \<open>convertToPDF\<close>.\<close>

definition convertToPDF_promise ::
  "string \<Rightarrow> string \<Rightarrow> string \<Rightarrow> host \<Rightarrow> string promise \<times> host" where
  "convertToPDF_promise tempDir pdfPath pptPath h =
     spawn_await (pdf_listeners pdfPath) pdf_timeout 30000
       (getLibreOfficePath (platform h) (existsSync (disk h)))
       [''--headless'', ''--convert-to'', ''pdf'', ''--outdir'', tempDir, pptPath] h"

definition convertToPDF :: "string \<Rightarrow> host \<Rightarrow> string promise \<times> host" where
  "convertToPDF pptPath h0 =
     (let (isInstalled, h1) = checkLibreOfficeInstallation h0 in
      (case isInstalled of
         Pending \<Rightarrow> (Pending, h1)
       | Rejected e \<Rightarrow> (Rejected e, h1)
       | Resolved ok \<Rightarrow>
          (if \<not> ok then (Rejected NotInstalled, h1)
           else
            (let tempDir = path_join (platform h1) (tmpdir h1) ''muty-pptviewer'' in
             (case (if \<not> existsSync (disk h1) tempDir then mkdirSync (disk h1) tempDir
                    else Inr (disk h1)) of
                Inl e \<Rightarrow> (Rejected e, h1)
              | Inr d \<Rightarrow>
                 (let h2 = h1\<lparr>disk := d\<rparr>;
                      fileName = basename (platform h2) pptPath (extname (platform h2) pptPath);
                      pdfPath = path_join (platform h2) tempDir (fileName @ ''.pdf'')
                  in (case (if existsSync d pdfPath then
                              (case statSync d pptPath of
                                 Inl e \<Rightarrow> Inl e
                               | Inr pptMtime \<Rightarrow>
                                  (case statSync d pdfPath of
                                     Inl e \<Rightarrow> Inl e
                                   | Inr pdfMtime \<Rightarrow> Inr (pdfMtime > pptMtime)))
                            else Inr False) of
                        Inl e \<Rightarrow> (Rejected e, h2)
                      | Inr fresh \<Rightarrow>
                         (if fresh then (Resolved pdfPath, h2)
                          else convertToPDF_promise tempDir pdfPath pptPath h2))))))))"

subsection \<open>convertToImages\<close>

definition image_listeners ::
  "string \<Rightarrow> string \<Rightarrow> string \<Rightarrow> event \<Rightarrow> string list task \<Rightarrow> string list task" where
  "image_listeners plat tempDir fileName e t =
     (case e of
        EvStderr data \<Rightarrow> t\<lparr>errorOutput := errorOutput t @ data\<rparr>
      | EvError m \<Rightarrow> reject (SpawnFailure ImageStage m) t
      | EvClose code \<Rightarrow>
          (if code = Some 0 then
             (case readdirSync (tdisk t) tempDir of
                Inl err \<Rightarrow> reject (ReadError err) t
              | Inr files \<Rightarrow>
                  let imageFiles =
                        map (path_join plat tempDir)
                          (filter (\<lambda>file. prefix fileName file \<and> suffix ''.png'' file) files)
                  in if length imageFiles > 0 then resolve (sort imageFiles) t
                     else reject NoOutputFiles t)
           else reject (NonZeroExit ImageStage code (errorOutput t)) t)
      | EvExit \<Rightarrow> t
      | EvFs d \<Rightarrow> t)"

definition image_timeout :: "string list task \<Rightarrow> string list task" where
  "image_timeout t = reject (Timeout ImageStage) (t\<lparr>child := kill (child t)\<rparr>)"

text \<open>The \<open>new Promise\<close> block that ends \<open>convertToImages\<close>.\<close>

definition convertToImages_promise ::
  "string \<Rightarrow> string \<Rightarrow> string \<Rightarrow> host \<Rightarrow> string list promise \<times> host" where
  "convertToImages_promise tempDir fileName pdfPath h =
     spawn_await (image_listeners (platform h) tempDir fileName) image_timeout 30000
       (getLibreOfficePath (platform h) (existsSync (disk h)))
       [''--headless'', ''--convert-to'', ''png'', ''--outdir'', tempDir, pdfPath] h"


section \<open>ppt-editor-provider.ts\<close>

text \<open>
  What the provider does to the editor: the messages it posts to the webview and the
  calls it makes on the \<open>vscode\<close> API, in order. The texts are kept by their template.
  \<open>loadPDF\<close>, \<open>loadPPT\<close> are the methods \<open>_loadPDF\<close>, \<open>_loadPPT\<close>; \<open>catch_error\<close>
  is the \<open>catch\<close> block of \<open>_loadPPT\<close>.
\<close>

datatype notice =
    ConvertFailed error
  | PdfNotCreated
  | PreviewError string
  | SelectFile
  | SelectValidFile

datatype outbound = LibreOfficeNotInstalled | LoadPDF string | ErrorMessage notice

datatype effect =
    PostMessage outbound
  | ShowErrorMessage notice
  | WithProgress
  | FocusFilesExplorer
  | OpenWith string string

datatype inbound = Ready | RetryLibreOfficeCheck | ErrorReport string | OtherCommand string

definition loadPDF :: "string \<Rightarrow> host \<Rightarrow> effect list" where
  "loadPDF pdfPath h =
     (if \<not> existsSync (disk h) pdfPath then [PostMessage (ErrorMessage PdfNotCreated)]
      else [PostMessage (LoadPDF (asWebviewUri h pdfPath))])"

definition catch_error :: "error \<Rightarrow> effect list" where
  "catch_error e = [ShowErrorMessage (ConvertFailed e), PostMessage (ErrorMessage (ConvertFailed e))]"

definition loadPPT :: "string \<Rightarrow> host \<Rightarrow> effect list \<times> host" where
  "loadPPT pptPath h0 =
     (let (isInstalled, h1) = checkLibreOfficeInstallation h0 in
      (case isInstalled of
         Pending \<Rightarrow> ([], h1)
       | Rejected e \<Rightarrow> (catch_error e, h1)
       | Resolved ok \<Rightarrow>
          (if \<not> ok then ([PostMessage LibreOfficeNotInstalled], h1)
           else
            (let (pdf, h2) = convertToPDF pptPath h1 in
             (case pdf of
                Pending \<Rightarrow> ([WithProgress], h2)
              | Rejected e \<Rightarrow> (WithProgress # catch_error e, h2)
              | Resolved pdfPath \<Rightarrow> (WithProgress # loadPDF pdfPath h2, h2))))))"

text \<open>
  The listener \<open>resolveCustomEditor\<close> registers with \<open>onDidReceiveMessage\<close>, for the
  document at \<open>fsPath\<close>. On \<open>ready\<close> it starts \<open>_loadPPT\<close> without awaiting it and
  then \<open>_handleFileSelection\<close>, which sets a timer of 2000 ms that focuses the explorer.
  The result gives what \<open>_loadPPT\<close> does, in its own order, and apart from it what the
  timers set by the listener do, each with its delay after the message. How the two
  interleave depends on how long the probe and the conversion take, and is not fixed
  here.
\<close>

definition onDidReceiveMessage ::
  "string \<Rightarrow> inbound \<Rightarrow> host \<Rightarrow> effect list \<times> (nat \<times> effect) list \<times> host" where
  "onDidReceiveMessage fsPath message h =
     (case message of
        Ready \<Rightarrow> (let (fx, h') = loadPPT fsPath h in (fx, [(2000, FocusFilesExplorer)], h'))
      | RetryLibreOfficeCheck \<Rightarrow> (let (fx, h') = loadPPT fsPath h in (fx, [], h'))
      | ErrorReport text \<Rightarrow> ([ShowErrorMessage (PreviewError text)], [], h)
      | OtherCommand c \<Rightarrow> ([], [], h))"

section \<open>extension.ts\<close>

text \<open>The command \<open>muty-pptviewer.openPPT\<close>; \<open>None\<close> is a call without a URI.\<close>

definition openPPTCommand :: "string \<Rightarrow> string option \<Rightarrow> effect list" where
  "openPPTCommand plat uri =
     (case uri of
        None \<Rightarrow> [ShowErrorMessage SelectFile]
      | Some fsPath \<Rightarrow>
          let ext = toLowerCase (extname plat fsPath) in
          if ext \<noteq> ''.pptx'' \<and> ext \<noteq> ''.ppt'' then [ShowErrorMessage SelectValidFile]
          else [OpenWith fsPath ''muty-pptviewer.preview''])"

section \<open>Vocabulary of the properties\<close>

text \<open>
  An event settles a promise when a listener that resolves or rejects is attached to
  it: \<open>error\<close> and \<open>close\<close>. The others are quiet.
\<close>

definition settling :: "event \<Rightarrow> bool" where
  "settling e = (case e of EvError m \<Rightarrow> True | EvClose c \<Rightarrow> True | EvStderr s \<Rightarrow> False
                 | EvExit \<Rightarrow> False | EvFs d \<Rightarrow> False)"

text \<open>After these events Node holds no running process for the child.\<close>

definition ends :: "event \<Rightarrow> bool" where
  "ends e = (case e of EvError m \<Rightarrow> True | EvExit \<Rightarrow> True | EvClose c \<Rightarrow> True
             | EvStderr s \<Rightarrow> False | EvFs d \<Rightarrow> False)"

definition quiet_prefix :: "event list \<Rightarrow> event list" where
  "quiet_prefix evs = takeWhile (\<lambda>e. \<not> settling e) evs"

text \<open>The standard-error text of a list of events, and the disk they leave.\<close>

definition stderr_text :: "event list \<Rightarrow> string" where
  "stderr_text evs = concat (map (\<lambda>e. case e of EvStderr s \<Rightarrow> s | _ \<Rightarrow> []) evs)"

definition disk_after :: "fs \<Rightarrow> event list \<Rightarrow> fs" where
  "disk_after d evs = foldl (\<lambda>d e. case e of EvFs d' \<Rightarrow> d' | _ \<Rightarrow> d) d evs"

text \<open>
  What the three pairs of handlers have in common: the listeners leave the child and the
  disk alone, settle on \<open>error\<close> and \<open>close\<close> and on nothing else; the timer's callback
  kills the child and settles; nothing changes a settled promise.
\<close>

definition handlers_ok :: "(event \<Rightarrow> 'a task \<Rightarrow> 'a task) \<Rightarrow> ('a task \<Rightarrow> 'a task) \<Rightarrow> bool" where
  "handlers_ok L T \<longleftrightarrow>
     (\<forall>e t. child (L e t) = child t \<and> tdisk (L e t) = tdisk t
        \<and> (promise t \<noteq> Pending \<longrightarrow> promise (L e t) = promise t)
        \<and> (settling e \<longrightarrow> promise (L e t) \<noteq> Pending)
        \<and> (\<not> settling e \<longrightarrow> promise (L e t) = promise t))
     \<and> (\<forall>t. child (T t) = kill (child t) \<and> tdisk (T t) = tdisk t
        \<and> promise (T t) \<noteq> Pending
        \<and> (promise t \<noteq> Pending \<longrightarrow> promise (T t) = promise t))"

text \<open>
  The host after a spawn with a timer of \<open>delay\<close> milliseconds has been awaited: the
  disk is the one the quiet events before the first settling event left, the behaviour
  is used up, and the child is recorded: it is still running only if it never ended,
  and it was sent one termination signal exactly when it had not ended before the
  timer.
\<close>

definition after_spawn :: "nat \<Rightarrow> string \<Rightarrow> string list \<Rightarrow> host \<Rightarrow> host" where
  "after_spawn delay cmd as h =
     h\<lparr>disk := disk_after (disk h) (quiet_prefix (early delay (next_behaviour h))),
       behaviours := tl (behaviours h),
       procs := procs h @ [\<lparr>command = cmd, args = as,
                            alive = (find ends (map snd (next_behaviour h)) = None),
                            sigterms = (if find ends (early delay (next_behaviour h)) = None
                                        then 1 else 0)\<rparr>]\<rparr>"

section \<open>Example hosts\<close>

text \<open>
  A Linux host with temporary directory \<open>/t\<close> and the source \<open>/d/a.ppt\<close>, modified
  at time 10. On the \<open>cached\<close> disk the scratch directory holds \<open>a.pdf\<close>, modified at
  time 20; on the \<open>plain\<close> disk the scratch directory is empty; the \<open>images\<close> disk is
  the cached one with a listing of the scratch directory.
\<close>

definition ex_stat_cached :: "string \<Rightarrow> int option" where
  "ex_stat_cached p =
     (if p = ''/t/muty-pptviewer'' then Some 5
      else if p = ''/d/a.ppt'' then Some 10
      else if p = ''/t/muty-pptviewer/a.pdf'' then Some 20
      else None)"

definition ex_disk_cached :: fs where
  "ex_disk_cached = \<lparr>stat = ex_stat_cached, readdir = (\<lambda>p. None), mkdir = (\<lambda>p. None)\<rparr>"

definition ex_host :: "fs \<Rightarrow> trace list \<Rightarrow> host" where
  "ex_host d trs =
     \<lparr>platform = ''linux'', tmpdir = ''/t'', disk = d, behaviours = trs, procs = [],
      asWebviewUri = (\<lambda>p. p)\<rparr>"

definition ex_stat_plain :: "string \<Rightarrow> int option" where
  "ex_stat_plain p =
     (if p = ''/t/muty-pptviewer'' then Some 5
      else if p = ''/d/a.ppt'' then Some 10
      else None)"

definition ex_disk_plain :: fs where
  "ex_disk_plain = \<lparr>stat = ex_stat_plain, readdir = (\<lambda>p. None), mkdir = (\<lambda>p. None)\<rparr>"


section \<open>Promises, listeners and the timer\<close>

lemma resolve_simps:
  "promise (resolve v t) = (if promise t = Pending then Resolved v else promise t)"
  "child (resolve v t) = child t" "tdisk (resolve v t) = tdisk t" "errorOutput (resolve v t) = errorOutput t"
  by (simp_all add: resolve_def split: promise.splits)

lemma reject_simps:
  "promise (reject e t) = (if promise t = Pending then Rejected e else promise t)"
  "child (reject e t) = child t" "tdisk (reject e t) = tdisk t" "errorOutput (reject e t) = errorOutput t"
  by (simp_all add: reject_def split: promise.splits)

lemma runtime_simps:
  "promise (runtime e t) = promise t"
  "errorOutput (runtime e t) = errorOutput t"
  "tdisk (runtime e t) = (case e of EvFs d \<Rightarrow> d | _ \<Rightarrow> tdisk t)"
  "command (child (runtime e t)) = command (child t)"
  "args (child (runtime e t)) = args (child t)"
  "sigterms (child (runtime e t)) = sigterms (child t)"
  "alive (child (runtime e t)) = (alive (child t) \<and> \<not> ends e)"
  by (simp_all add: runtime_def ends_def split: event.splits)

lemma settling_ends: "settling e \<Longrightarrow> ends e"
  by (cases e) (simp_all add: settling_def ends_def)

lemma kill_simps:
  "command (kill p) = command p" "args (kill p) = args p" "alive (kill p) = alive p"
  "sigterms (kill p) = (if alive p then Suc (sigterms p) else sigterms p)"
  by (simp_all add: kill_def)

lemma deliver_Ev: "deliver L T t (Ev e) = L e (runtime e t)"
  and deliver_Timer: "deliver L T t Timer = T t"
  by (simp_all add: deliver_def)

lemma probe_ok: "handlers_ok probe_listeners probe_timeout"
  by (auto simp: handlers_ok_def probe_listeners_def probe_timeout_def resolve_simps settling_def split: event.splits)

lemma pdf_ok: "handlers_ok (pdf_listeners pdfPath) pdf_timeout"
  by (auto simp: handlers_ok_def pdf_listeners_def pdf_timeout_def resolve_simps reject_simps settling_def split: event.splits)

lemma image_ok: "handlers_ok (image_listeners plat tempDir fileName) image_timeout"
  by (auto simp: handlers_ok_def image_listeners_def image_timeout_def resolve_simps reject_simps settling_def Let_def split: event.splits sum.splits)

lemma settled_stays:
  assumes "handlers_ok L T" and "promise t \<noteq> Pending"
  shows "promise (foldl (deliver L T) t ks) = promise t"
  using assms(2)
proof (induction ks arbitrary: t)
  case Nil
  then show ?case by simp
next
  case (Cons k ks)
  have "promise (deliver L T t k) = promise t"
    using assms(1) Cons.prems by (cases k) (simp_all add: handlers_ok_def deliver_def runtime_simps)
  with Cons show ?case by simp
qed

lemma quiet_fold:
  assumes "handlers_ok L T" and "\<forall>e \<in> set q. \<not> settling e"
  shows "promise (foldl (deliver L T) t (map Ev q)) = promise t
       \<and> tdisk (foldl (deliver L T) t (map Ev q)) = disk_after (tdisk t) q"
  using assms(2)
proof (induction q arbitrary: t)
  case Nil
  then show ?case by (simp add: disk_after_def)
next
  case (Cons e q)
  from Cons.prems have e: "\<not> settling e" and q: "\<forall>e \<in> set q. \<not> settling e" by simp_all
  let ?t = "L e (runtime e t)"
  have "promise ?t = promise t" "tdisk ?t = (case e of EvFs d \<Rightarrow> d | _ \<Rightarrow> tdisk t)"
    using assms(1) e by (simp_all add: handlers_ok_def runtime_simps)
  then show ?case
    using Cons.IH [OF q, of ?t] by (simp add: deliver_Ev disk_after_def)
qed

lemma until_settled_quiet:
  assumes "handlers_ok L T" and "\<forall>e \<in> set q. \<not> settling e" and "promise t = Pending"
  shows "until_settled (deliver L T) (map Ev q @ ks) t
       = until_settled (deliver L T) ks (foldl (deliver L T) t (map Ev q))"
  using assms(2,3)
proof (induction q arbitrary: t)
  case Nil
  then show ?case by simp
next
  case (Cons e q)
  from Cons.prems have e: "\<not> settling e" and q: "\<forall>e \<in> set q. \<not> settling e" by simp_all
  have p: "promise (deliver L T t (Ev e)) = Pending"
    using assms(1) e Cons.prems(2) by (simp add: handlers_ok_def deliver_Ev runtime_simps)
  show ?case using Cons.IH [OF q p] p by simp
qed

lemma find_None: "(find P xs = None) = (\<forall>x \<in> set xs. \<not> P x)"
  by (auto simp: find_None_iff)

lemma find_settling:
  "find settling evs = (case dropWhile (\<lambda>e. \<not> settling e) evs of [] \<Rightarrow> None | e # _ \<Rightarrow> Some e)"
  by (induction evs) simp_all

lemma quiet_prefix_quiet: "\<forall>e \<in> set (quiet_prefix evs). \<not> settling e"
  by (auto simp: quiet_prefix_def dest: set_takeWhileD)

lemma split_early: "evs = quiet_prefix evs @ dropWhile (\<lambda>e. \<not> settling e) evs"
  by (simp add: quiet_prefix_def)

lemma first_settling: "dropWhile (\<lambda>e. \<not> settling e) evs = e # post \<Longrightarrow> settling e"
  using hd_dropWhile [of "\<lambda>e. \<not> settling e" evs] by auto

lemma find_quiet_append:
  assumes "\<forall>x \<in> set q. \<not> P x" and "P e"
  shows "find P (q @ [e]) = Some e" and "takeWhile (\<lambda>x. \<not> P x) (q @ [e]) = q"
  using assms by (induction q) simp_all

lemma find_Some_prefix:
  assumes "find settling evs = Some e"
  shows "settling e"
    and "find settling (quiet_prefix evs @ [e]) = Some e"
    and "quiet_prefix (quiet_prefix evs @ [e]) = quiet_prefix evs"
proof -
  show s: "settling e" using assms by (auto simp: find_Some_iff)
  show "find settling (quiet_prefix evs @ [e]) = Some e"
    using find_quiet_append(1) [OF quiet_prefix_quiet s] .
  show "quiet_prefix (quiet_prefix evs @ [e]) = quiet_prefix evs"
    using find_quiet_append(2) [OF quiet_prefix_quiet s, of evs]
    by (simp add: quiet_prefix_def)
qed

lemma early_late: "early r tr @ late r tr = map snd tr"
  by (induction r tr rule: early.induct) simp_all

lemma early_zero: "0 < r \<Longrightarrow> early r (map (Pair 0) evs) = evs"
  by (induction evs) simp_all

lemma early_ends:
  assumes "find ends (early r tr) \<noteq> None"
  shows "find ends (map snd tr) \<noteq> None"
proof -
  from assms obtain e where "e \<in> set (early r tr)" "ends e"
    by (auto simp: find_None)
  then have "e \<in> set (map snd tr)" by (simp flip: early_late [of r tr])
  with \<open>ends e\<close> show ?thesis by (auto simp: find_None)
qed

lemma settled_ended:
  assumes "find settling evs \<noteq> None"
  shows "find ends evs \<noteq> None"
  using assms by (auto simp: find_None dest: settling_ends)

lemma spawn_task_split:
  fixes L :: "event \<Rightarrow> 'a task \<Rightarrow> 'a task" and T r h cmd as
  assumes ok: "handlers_ok L T"
  defines "evs \<equiv> early r (next_behaviour h)"
  defines "tq \<equiv> foldl (deliver L T) (task0 cmd as (disk h)) (map Ev (quiet_prefix evs))"
  shows "spawn_task L T r cmd as h =
     (case dropWhile (\<lambda>e. \<not> settling e) evs of
        [] \<Rightarrow> (T tq, foldl (deliver L T) (T tq) (map Ev (late r (next_behaviour h))))
      | e # post \<Rightarrow> (L e (runtime e tq),
           foldl (deliver L T) (L e (runtime e tq))
             (map Ev post @ Timer # map Ev (late r (next_behaviour h)))))"
proof -
  let ?rest = "dropWhile (\<lambda>e. \<not> settling e) evs"
  have p0: "promise (task0 cmd as (disk h) :: 'a task) = Pending" by (simp add: task0_def)
  have sch: "schedule r (next_behaviour h)
      = map Ev (quiet_prefix evs) @ (map Ev ?rest @ Timer # map Ev (late r (next_behaviour h)))"
    unfolding schedule_def evs_def [symmetric] by (subst split_early [of evs]) simp
  have u: "until_settled (deliver L T) (schedule r (next_behaviour h)) (task0 cmd as (disk h))
      = until_settled (deliver L T) (map Ev ?rest @ Timer # map Ev (late r (next_behaviour h))) tq"
    unfolding sch tq_def by (rule until_settled_quiet [OF ok quiet_prefix_quiet p0])
  have ptq: "promise tq = Pending"
    unfolding tq_def using quiet_fold [OF ok quiet_prefix_quiet] p0 by simp
  show ?thesis
  proof (cases ?rest)
    case Nil
    have "promise (T tq) \<noteq> Pending" using ok by (simp add: handlers_ok_def)
    then show ?thesis unfolding spawn_task_def u Nil by (simp add: deliver_Timer)
  next
    case (Cons e post)
    then have "settling e" by (rule first_settling)
    then have "promise (L e (runtime e tq)) \<noteq> Pending" using ok by (simp add: handlers_ok_def)
    then show ?thesis unfolding spawn_task_def u Cons by (simp add: deliver_Ev)
  qed
qed

lemma spawn_task_settled:
  assumes ok: "handlers_ok L T"
  shows "promise (snd (spawn_task L T r cmd as h)) = promise (fst (spawn_task L T r cmd as h))"
    and "promise (fst (spawn_task L T r cmd as h)) \<noteq> Pending"
proof -
  let ?tq = "foldl (deliver L T) (task0 cmd as (disk h))
               (map Ev (quiet_prefix (early r (next_behaviour h))))"
  have t: "\<And>t. promise (T t) \<noteq> Pending" using ok by (simp add: handlers_ok_def)
  show p: "promise (fst (spawn_task L T r cmd as h)) \<noteq> Pending"
  proof (cases "dropWhile (\<lambda>e. \<not> settling e) (early r (next_behaviour h))")
    case Nil
    with spawn_task_split [OF ok, of r cmd as h]
    have "fst (spawn_task L T r cmd as h) = T ?tq" by (simp del: dropWhile_eq_Nil_conv)
    then show ?thesis by (simp add: t)
  next
    case (Cons e post)
    then have "settling e" by (rule first_settling)
    then have "promise (L e (runtime e ?tq)) \<noteq> Pending" using ok by (simp add: handlers_ok_def)
    moreover from Cons spawn_task_split [OF ok, of r cmd as h]
    have "fst (spawn_task L T r cmd as h) = L e (runtime e ?tq)" by simp
    ultimately show ?thesis by simp
  qed
  show "promise (snd (spawn_task L T r cmd as h)) = promise (fst (spawn_task L T r cmd as h))"
  proof -
    obtain t1 rest where u: "until_settled (deliver L T) (schedule r (next_behaviour h))
        (task0 cmd as (disk h)) = (t1, rest)" by (cases "until_settled (deliver L T)
        (schedule r (next_behaviour h)) (task0 cmd as (disk h) :: 'a task)") auto
    then have st: "spawn_task L T r cmd as h = (t1, foldl (deliver L T) t1 rest)"
      by (simp add: spawn_task_def)
    with p have "promise t1 \<noteq> Pending" by simp
    then show ?thesis unfolding st using settled_stays [OF ok] by simp
  qed
qed

lemma drain_child:
  assumes "handlers_ok L T"
  shows "command (child (foldl (deliver L T) t ks)) = command (child t)
       \<and> args (child (foldl (deliver L T) t ks)) = args (child t)
       \<and> alive (child (foldl (deliver L T) t ks))
           = (alive (child t) \<and> (\<forall>e. Ev e \<in> set ks \<longrightarrow> \<not> ends e))
       \<and> (\<not> alive (child t) \<or> Timer \<notin> set ks
            \<longrightarrow> sigterms (child (foldl (deliver L T) t ks)) = sigterms (child t))"
proof (induction ks arbitrary: t)
  case Nil
  then show ?case by simp
next
  case (Cons k ks)
  let ?t = "deliver L T t k"
  note IH = Cons.IH [of ?t]
  show ?case
  proof (cases k)
    case (Ev e)
    have "child ?t = child (runtime e t)"
      using assms Ev by (simp add: handlers_ok_def deliver_Ev)
    then have c: "command (child ?t) = command (child t)" "args (child ?t) = args (child t)"
      "alive (child ?t) = (alive (child t) \<and> \<not> ends e)"
      "sigterms (child ?t) = sigterms (child t)"
      by (simp_all add: runtime_simps)
    have s: "(\<forall>e'. Ev e' \<in> set (k # ks) \<longrightarrow> \<not> ends e')
        = (\<not> ends e \<and> (\<forall>e'. Ev e' \<in> set ks \<longrightarrow> \<not> ends e'))"
      using Ev by auto
    have m: "(Timer \<notin> set (k # ks)) = (Timer \<notin> set ks)" using Ev by simp
    show ?thesis unfolding foldl_Cons s m using IH c by auto
  next
    case Timer
    have "child ?t = kill (child t)"
      using assms Timer by (simp add: handlers_ok_def deliver_Timer)
    then have c: "command (child ?t) = command (child t)" "args (child ?t) = args (child t)"
      "alive (child ?t) = alive (child t)"
      "\<not> alive (child t) \<Longrightarrow> sigterms (child ?t) = sigterms (child t)"
      by (simp_all add: kill_simps)
    have s: "(\<forall>e'. Ev e' \<in> set (k # ks) \<longrightarrow> \<not> ends e')
        = (\<forall>e'. Ev e' \<in> set ks \<longrightarrow> \<not> ends e')"
      using Timer by auto
    have m: "(Timer \<notin> set (k # ks)) = False" using Timer by simp
    show ?thesis unfolding foldl_Cons s m using IH c by auto
  qed
qed

lemma until_settled_fold:
  "until_settled step ks t = (t1, rest) \<Longrightarrow> foldl step t1 rest = foldl step t ks"
  by (induction ks arbitrary: t) (auto simp: Let_def split: if_splits)

lemma final_child:
  fixes L :: "event \<Rightarrow> 'a task \<Rightarrow> 'a task" and T r h cmd as
  assumes ok: "handlers_ok L T"
  defines "tr \<equiv> next_behaviour h"
  shows "child (snd (spawn_task L T r cmd as h)) =
     \<lparr>command = cmd, args = as,
      alive = (find ends (map snd tr) = None),
      sigterms = (if find ends (early r tr) = None then 1 else 0)\<rparr>"
proof -
  let ?t0 = "task0 cmd as (disk h) :: 'a task"
  let ?ta = "foldl (deliver L T) ?t0 (map Ev (early r tr))"
  let ?tb = "T ?ta"
  let ?tc = "foldl (deliver L T) ?tb (map Ev (late r tr))"
  obtain t1 rest where u: "until_settled (deliver L T) (schedule r tr) ?t0 = (t1, rest)"
    by (cases "until_settled (deliver L T) (schedule r tr) ?t0") auto
  then have "snd (spawn_task L T r cmd as h) = foldl (deliver L T) t1 rest"
    by (simp add: spawn_task_def tr_def)
  also have "\<dots> = foldl (deliver L T) ?t0 (schedule r tr)"
    using u by (rule until_settled_fold)
  also have "\<dots> = ?tc" by (simp add: schedule_def deliver_Timer)
  finally have s: "snd (spawn_task L T r cmd as h) = ?tc" .
  have nt: "Timer \<notin> Ev ` set xs" for xs :: "event list" by auto
  have ev: "(\<forall>e. Ev e \<in> Ev ` set xs \<longrightarrow> \<not> ends e) = (find ends xs = None)"
    for xs :: "event list" by (auto simp: find_None)
  have a: "command (child ?ta) = cmd" "args (child ?ta) = as"
    "alive (child ?ta) = (find ends (early r tr) = None)" "sigterms (child ?ta) = 0"
    using drain_child [OF ok, of ?t0 "map Ev (early r tr)"]
    by (simp_all add: ev nt task0_def)
  have b: "child ?tb = kill (child ?ta)" using ok by (simp add: handlers_ok_def)
  have c: "command (child ?tc) = cmd" "args (child ?tc) = as"
    "alive (child ?tc) = (alive (child ?tb) \<and> find ends (late r tr) = None)"
    "sigterms (child ?tc) = sigterms (child ?tb)"
    using drain_child [OF ok, of ?tb "map Ev (late r tr)"] a
    by (simp_all add: ev nt b kill_simps)
  have all: "(find ends (map snd tr) = None)
      = (find ends (early r tr) = None \<and> find ends (late r tr) = None)"
    by (auto simp: find_None simp flip: early_late [of r tr])
  show ?thesis
    unfolding s using a c all by (cases "child ?tc") (auto simp: b kill_simps)
qed

lemma spawn_await_eq:
  fixes L :: "event \<Rightarrow> 'a task \<Rightarrow> 'a task" and T r h cmd as
  assumes ok: "handlers_ok L T"
  defines "tr \<equiv> next_behaviour h"
  defines "evs \<equiv> early r tr"
  defines "tq \<equiv> foldl (deliver L T) (task0 cmd as (disk h)) (map Ev (quiet_prefix evs))"
  shows "spawn_await L T r cmd as h =
     (case find settling evs of None \<Rightarrow> promise (T tq) | Some e \<Rightarrow> promise (L e (runtime e tq)),
      after_spawn r cmd as h)"
proof -
  let ?rest = "dropWhile (\<lambda>e. \<not> settling e) evs"
  let ?t0 = "task0 cmd as (disk h) :: 'a task"
  let ?run = "spawn_task L T r cmd as h"
  note split = spawn_task_split [OF ok, of r cmd as h, folded tr_def, folded evs_def, folded tq_def]
  have q: "promise tq = Pending" "tdisk tq = disk_after (disk h) (quiet_prefix evs)"
    unfolding tq_def using quiet_fold [OF ok quiet_prefix_quiet, of ?t0 evs]
    by (simp_all add: task0_def)
  have pd: "promise (fst ?run)
        = (case find settling evs of None \<Rightarrow> promise (T tq)
           | Some e \<Rightarrow> promise (L e (runtime e tq)))
      \<and> tdisk (fst ?run) = disk_after (disk h) (quiet_prefix evs)"
  proof (cases ?rest)
    case Nil
    then have "\<forall>e \<in> set evs. \<not> settling e" by (simp add: dropWhile_eq_Nil_conv)
    then have none: "find settling evs = None" by (simp add: find_None)
    from split Nil have "fst ?run = T tq" by (simp del: dropWhile_eq_Nil_conv)
    then show ?thesis using none q ok by (simp add: handlers_ok_def)
  next
    case (Cons e post)
    then have some: "find settling evs = Some e" by (simp add: find_settling)
    have se: "settling e" using Cons by (rule first_settling)
    from split Cons have "fst ?run = L e (runtime e tq)" by simp
    moreover have "tdisk (runtime e tq) = tdisk tq"
      using se by (cases e) (simp_all add: runtime_def settling_def)
    ultimately show ?thesis using some q ok by (simp add: handlers_ok_def)
  qed
  have c: "child (snd ?run) = \<lparr>command = cmd, args = as,
      alive = (find ends (map snd tr) = None),
      sigterms = (if find ends (early r tr) = None then 1 else 0)\<rparr>"
    unfolding tr_def by (rule final_child [OF ok])
  show ?thesis
    unfolding spawn_await_def after_spawn_def using pd c
    by (simp add: case_prod_unfold Let_def tr_def evs_def)
qed

lemma quiet_state:
  fixes L :: "event \<Rightarrow> 'a task \<Rightarrow> 'a task" and T cmd as d evs
  assumes "handlers_ok L T"
  defines "tq \<equiv> foldl (deliver L T) (task0 cmd as d) (map Ev (quiet_prefix evs))"
  shows "promise tq = Pending" and "tdisk tq = disk_after d (quiet_prefix evs)"
  unfolding tq_def using quiet_fold [OF assms(1) quiet_prefix_quiet, of "task0 cmd as d" evs]
  by (simp_all add: task0_def)

lemma after_spawn_simps:
  "platform (after_spawn r cmd as h) = platform h"
  "tmpdir (after_spawn r cmd as h) = tmpdir h"
  "asWebviewUri (after_spawn r cmd as h) = asWebviewUri h"
  "behaviours (after_spawn r cmd as h) = tl (behaviours h)"
  "disk (after_spawn r cmd as h) = disk_after (disk h) (quiet_prefix (early r (next_behaviour h)))"
  "procs (after_spawn r cmd as h) = procs h @ [\<lparr>command = cmd, args = as,
      alive = (find ends (map snd (next_behaviour h)) = None),
      sigterms = (if find ends (early r (next_behaviour h)) = None then 1 else 0)\<rparr>]"
  by (simp_all add: after_spawn_def)

section \<open>What the converter and the provider compute\<close>

lemma check_eq:
  "checkLibreOfficeInstallation h =
     (Resolved (find settling (early 5000 (next_behaviour h)) = Some (EvClose (Some 0))),
      after_spawn 5000 (getLibreOfficePath (platform h) (existsSync (disk h))) [''--version''] h)"
proof -
  let ?evs = "early 5000 (next_behaviour h)"
  let ?cmd = "getLibreOfficePath (platform h) (existsSync (disk h))"
  let ?tq = "foldl (deliver probe_listeners probe_timeout)
               (task0 ?cmd [''--version''] (disk h)) (map Ev (quiet_prefix ?evs))"
  have p: "promise ?tq = Pending" by (rule quiet_state [OF probe_ok])
  have "(case find settling ?evs of None \<Rightarrow> promise (probe_timeout ?tq)
         | Some e \<Rightarrow> promise (probe_listeners e (runtime e ?tq)))
      = Resolved (find settling ?evs = Some (EvClose (Some 0)))"
  proof (cases "find settling ?evs")
    case None
    then show ?thesis using p by (simp add: probe_timeout_def resolve_simps)
  next
    case (Some e)
    then have "settling e" by (auto simp: find_Some_iff)
    with Some p show ?thesis
      by (cases e) (simp_all add: settling_def probe_listeners_def resolve_simps runtime_simps)
  qed
  then show ?thesis
    unfolding checkLibreOfficeInstallation_def spawn_await_eq [OF probe_ok] by simp
qed

lemma stderr_text_simps:
  "stderr_text [] = []"
  "stderr_text (e # evs) = (case e of EvStderr s \<Rightarrow> s | _ \<Rightarrow> []) @ stderr_text evs"
  by (simp_all add: stderr_text_def)

lemma pdf_quiet_err:
  assumes "\<forall>e \<in> set q. \<not> settling e"
  shows "errorOutput (foldl (deliver (pdf_listeners pdfPath) pdf_timeout) t (map Ev q))
       = errorOutput t @ stderr_text q"
  using assms
proof (induction q arbitrary: t)
  case Nil
  then show ?case by (simp add: stderr_text_simps)
next
  case (Cons e q)
  then have "\<not> settling e" by simp
  then have "errorOutput (deliver (pdf_listeners pdfPath) pdf_timeout t (Ev e))
      = errorOutput t @ (case e of EvStderr s \<Rightarrow> s | _ \<Rightarrow> [])"
    by (cases e) (simp_all add: deliver_Ev pdf_listeners_def runtime_def settling_def)
  with Cons show ?case by (simp add: stderr_text_simps)
qed

lemma image_quiet_err:
  assumes "\<forall>e \<in> set q. \<not> settling e"
  shows "errorOutput (foldl (deliver (image_listeners plat td fn) image_timeout) t (map Ev q))
       = errorOutput t @ stderr_text q"
  using assms
proof (induction q arbitrary: t)
  case Nil
  then show ?case by (simp add: stderr_text_simps)
next
  case (Cons e q)
  then have "\<not> settling e" by simp
  then have "errorOutput (deliver (image_listeners plat td fn) image_timeout t (Ev e))
      = errorOutput t @ (case e of EvStderr s \<Rightarrow> s | _ \<Rightarrow> [])"
    by (cases e) (simp_all add: deliver_Ev image_listeners_def runtime_def settling_def)
  with Cons show ?case by (simp add: stderr_text_simps)
qed

lemma pdf_promise_eq:
  fixes h tempDir pdfPath pptPath
  defines "evs \<equiv> early 30000 (next_behaviour h)"
  shows "convertToPDF_promise tempDir pdfPath pptPath h =
     (case find settling evs of
        None \<Rightarrow> Rejected (Timeout PdfStage)
      | Some e \<Rightarrow>
         (case e of
            EvError m \<Rightarrow> Rejected (SpawnFailure PdfStage m)
          | EvClose c \<Rightarrow>
             (if c = Some 0 then
                (if existsSync (disk_after (disk h) (quiet_prefix evs)) pdfPath
                 then Resolved pdfPath else Rejected OutputMissing)
              else Rejected (NonZeroExit PdfStage c (stderr_text (quiet_prefix evs))))
          | EvStderr s \<Rightarrow> Pending
          | EvExit \<Rightarrow> Pending
          | EvFs d \<Rightarrow> Pending),
      after_spawn 30000 (getLibreOfficePath (platform h) (existsSync (disk h)))
        [''--headless'', ''--convert-to'', ''pdf'', ''--outdir'', tempDir, pptPath] h)"
proof -
  let ?cmd = "getLibreOfficePath (platform h) (existsSync (disk h))"
  let ?as = "[''--headless'', ''--convert-to'', ''pdf'', ''--outdir'', tempDir, pptPath]"
  let ?tq = "foldl (deliver (pdf_listeners pdfPath) pdf_timeout)
               (task0 ?cmd ?as (disk h)) (map Ev (quiet_prefix evs))"
  have p: "promise ?tq = Pending" "tdisk ?tq = disk_after (disk h) (quiet_prefix evs)"
    by (rule quiet_state [OF pdf_ok])+
  have e: "errorOutput ?tq = stderr_text (quiet_prefix evs)"
    using pdf_quiet_err [OF quiet_prefix_quiet, of pdfPath "task0 ?cmd ?as (disk h)" evs]
    by (simp add: task0_def)
  have "(case find settling evs of None \<Rightarrow> promise (pdf_timeout ?tq)
         | Some e \<Rightarrow> promise (pdf_listeners pdfPath e (runtime e ?tq)))
      = (case find settling evs of
        None \<Rightarrow> Rejected (Timeout PdfStage)
      | Some e \<Rightarrow>
         (case e of
            EvError m \<Rightarrow> Rejected (SpawnFailure PdfStage m)
          | EvClose c \<Rightarrow>
             (if c = Some 0 then
                (if existsSync (disk_after (disk h) (quiet_prefix evs)) pdfPath
                 then Resolved pdfPath else Rejected OutputMissing)
              else Rejected (NonZeroExit PdfStage c (stderr_text (quiet_prefix evs))))
          | EvStderr s \<Rightarrow> Pending
          | EvExit \<Rightarrow> Pending
          | EvFs d \<Rightarrow> Pending))"
  proof (cases "find settling evs")
    case None
    then show ?thesis using p by (simp add: pdf_timeout_def reject_simps)
  next
    case (Some e')
    then have "settling e'" by (auto simp: find_Some_iff)
    with Some p e show ?thesis
      by (cases e')
        (simp_all add: settling_def pdf_listeners_def resolve_simps reject_simps runtime_simps)
  qed
  then show ?thesis
    unfolding convertToPDF_promise_def spawn_await_eq [OF pdf_ok] evs_def by simp
qed

lemma image_promise_eq:
  fixes h tempDir fileName pdfPath
  defines "evs \<equiv> early 30000 (next_behaviour h)"
  shows "convertToImages_promise tempDir fileName pdfPath h =
     (case find settling evs of
        None \<Rightarrow> Rejected (Timeout ImageStage)
      | Some e \<Rightarrow>
         (case e of
            EvError m \<Rightarrow> Rejected (SpawnFailure ImageStage m)
          | EvClose c \<Rightarrow>
             (if c = Some 0 then
                (case readdir (disk_after (disk h) (quiet_prefix evs)) tempDir of
                   None \<Rightarrow> Rejected (ReadError (FsError tempDir))
                 | Some files \<Rightarrow>
                     (if filter (\<lambda>file. prefix fileName file \<and> suffix ''.png'' file) files = []
                      then Rejected NoOutputFiles
                      else Resolved (sort (map (path_join (platform h) tempDir)
                             (filter (\<lambda>file. prefix fileName file \<and> suffix ''.png'' file)
                                files)))))
              else Rejected (NonZeroExit ImageStage c (stderr_text (quiet_prefix evs))))
          | EvStderr s \<Rightarrow> Pending
          | EvExit \<Rightarrow> Pending
          | EvFs d \<Rightarrow> Pending),
      after_spawn 30000 (getLibreOfficePath (platform h) (existsSync (disk h)))
        [''--headless'', ''--convert-to'', ''png'', ''--outdir'', tempDir, pdfPath] h)"
proof -
  let ?cmd = "getLibreOfficePath (platform h) (existsSync (disk h))"
  let ?as = "[''--headless'', ''--convert-to'', ''png'', ''--outdir'', tempDir, pdfPath]"
  let ?L = "image_listeners (platform h) tempDir fileName"
  let ?tq = "foldl (deliver ?L image_timeout) (task0 ?cmd ?as (disk h))
               (map Ev (quiet_prefix evs))"
  have p: "promise ?tq = Pending" "tdisk ?tq = disk_after (disk h) (quiet_prefix evs)"
    by (rule quiet_state [OF image_ok])+
  have e: "errorOutput ?tq = stderr_text (quiet_prefix evs)"
    using image_quiet_err [OF quiet_prefix_quiet, of "platform h" tempDir fileName
        "task0 ?cmd ?as (disk h)" evs]
    by (simp add: task0_def)
  have "(case find settling evs of None \<Rightarrow> promise (image_timeout ?tq)
         | Some e \<Rightarrow> promise (?L e (runtime e ?tq)))
      = (case find settling evs of
        None \<Rightarrow> Rejected (Timeout ImageStage)
      | Some e \<Rightarrow>
         (case e of
            EvError m \<Rightarrow> Rejected (SpawnFailure ImageStage m)
          | EvClose c \<Rightarrow>
             (if c = Some 0 then
                (case readdir (disk_after (disk h) (quiet_prefix evs)) tempDir of
                   None \<Rightarrow> Rejected (ReadError (FsError tempDir))
                 | Some files \<Rightarrow>
                     (if filter (\<lambda>file. prefix fileName file \<and> suffix ''.png'' file) files = []
                      then Rejected NoOutputFiles
                      else Resolved (sort (map (path_join (platform h) tempDir)
                             (filter (\<lambda>file. prefix fileName file \<and> suffix ''.png'' file)
                                files)))))
              else Rejected (NonZeroExit ImageStage c (stderr_text (quiet_prefix evs))))
          | EvStderr s \<Rightarrow> Pending
          | EvExit \<Rightarrow> Pending
          | EvFs d \<Rightarrow> Pending))"
  proof (cases "find settling evs")
    case None
    then show ?thesis using p by (simp add: image_timeout_def reject_simps)
  next
    case (Some e')
    then have "settling e'" by (auto simp: find_Some_iff)
    with Some p e show ?thesis
      by (cases e')
        (simp_all add: settling_def image_listeners_def readdirSync_def resolve_simps
           reject_simps runtime_simps Let_def split: option.splits)
  qed
  then show ?thesis
    unfolding convertToImages_promise_def spawn_await_eq [OF image_ok] evs_def by simp
qed

lemma convertToPDF_not_installed:
  assumes "fst (checkLibreOfficeInstallation h0) = Resolved False"
  shows "convertToPDF pptPath h0 = (Rejected NotInstalled, snd (checkLibreOfficeInstallation h0))"
  using assms by (cases "checkLibreOfficeInstallation h0") (simp add: convertToPDF_def)

lemma convertToPDF_cached:
  assumes "checkLibreOfficeInstallation h0 = (Resolved True, h1)"
    and "existsSync (disk h1) (path_join (platform h1) (tmpdir h1) ''muty-pptviewer'')"
    and "stat (disk h1) pptPath = Some m0"
    and "stat (disk h1) (path_join (platform h1)
           (path_join (platform h1) (tmpdir h1) ''muty-pptviewer'')
           (basename (platform h1) pptPath (extname (platform h1) pptPath) @ ''.pdf'')) = Some m1"
    and "m0 < m1"
  shows "convertToPDF pptPath h0 =
     (Resolved (path_join (platform h1)
           (path_join (platform h1) (tmpdir h1) ''muty-pptviewer'')
           (basename (platform h1) pptPath (extname (platform h1) pptPath) @ ''.pdf'')), h1)"
  using assms by (auto simp: convertToPDF_def Let_def existsSync_def statSync_def)

lemma convertToPDF_spawns:
  assumes "checkLibreOfficeInstallation h0 = (Resolved True, h1)"
    and "existsSync (disk h1) (path_join (platform h1) (tmpdir h1) ''muty-pptviewer'')"
    and "stat (disk h1) (path_join (platform h1)
           (path_join (platform h1) (tmpdir h1) ''muty-pptviewer'')
           (basename (platform h1) pptPath (extname (platform h1) pptPath) @ ''.pdf'')) = None"
  shows "convertToPDF pptPath h0 =
     convertToPDF_promise (path_join (platform h1) (tmpdir h1) ''muty-pptviewer'')
       (path_join (platform h1) (path_join (platform h1) (tmpdir h1) ''muty-pptviewer'')
          (basename (platform h1) pptPath (extname (platform h1) pptPath) @ ''.pdf''))
       pptPath h1"
  using assms by (auto simp: convertToPDF_def Let_def existsSync_def statSync_def)

text \<open>
  When \<open>convertToPDF\<close> gets to its promise block: the probe has resolved \<open>true\<close>, the
  scratch directory is there or has been made, and the cache entry is missing or not
  newer than the source. The call then is that block, run on the disk \<open>d\<close> that the
  directory check left.
\<close>

lemma convertToPDF_reaches_promise:
  fixes pptPath :: string and h0 h1 :: host and d :: fs
  defines "tempDir \<equiv> path_join (platform h1) (tmpdir h1) ''muty-pptviewer''"
  defines "pdfPath \<equiv> path_join (platform h1) tempDir
             (basename (platform h1) pptPath (extname (platform h1) pptPath) @ ''.pdf'')"
  assumes "checkLibreOfficeInstallation h0 = (Resolved True, h1)"
    and "(if \<not> existsSync (disk h1) tempDir then mkdirSync (disk h1) tempDir
          else Inr (disk h1)) = Inr d"
    and "\<not> existsSync d pdfPath
         \<or> (\<exists>m0 m1. stat d pptPath = Some m0 \<and> stat d pdfPath = Some m1 \<and> m1 \<le> m0)"
  shows "convertToPDF pptPath h0 = convertToPDF_promise tempDir pdfPath pptPath (h1\<lparr>disk := d\<rparr>)"
  using assms(3-5) unfolding tempDir_def pdfPath_def
  by (auto simp: convertToPDF_def Let_def existsSync_def statSync_def split: if_splits)

lemma pdf_promise_procs:
  "\<exists>conv. procs (snd (convertToPDF_promise tempDir pdfPath pptPath h)) = procs h @ [conv]
      \<and> args conv = [''--headless'', ''--convert-to'', ''pdf'', ''--outdir'', tempDir, pptPath]"
  by (simp add: pdf_promise_eq after_spawn_simps)

lemma convertToPDF_procs:
  fixes pptPath h0
  defines "h1 \<equiv> snd (checkLibreOfficeInstallation h0)"
  shows "procs (snd (convertToPDF pptPath h0)) = procs h1
       \<or> (fst (checkLibreOfficeInstallation h0) = Resolved True
          \<and> (\<exists>conv. procs (snd (convertToPDF pptPath h0)) = procs h1 @ [conv]
                \<and> args conv = [''--headless'', ''--convert-to'', ''pdf'', ''--outdir'',
                     path_join (platform h0) (tmpdir h0) ''muty-pptviewer'', pptPath]))"
proof -
  obtain b where c: "checkLibreOfficeInstallation h0 = (Resolved b, h1)"
    unfolding h1_def by (simp add: check_eq)
  have pf: "platform h1 = platform h0" "tmpdir h1 = tmpdir h0"
    unfolding h1_def by (simp_all add: check_eq after_spawn_simps)
  let ?td = "path_join (platform h1) (tmpdir h1) ''muty-pptviewer''"
  let ?pp = "path_join (platform h1) ?td
               (basename (platform h1) pptPath (extname (platform h1) pptPath) @ ''.pdf'')"
  let ?m = "if \<not> existsSync (disk h1) ?td then mkdirSync (disk h1) ?td else Inr (disk h1)"
  show ?thesis
  proof (cases b)
    case False
    then show ?thesis by (simp add: convertToPDF_def c)
  next
    case True
    show ?thesis
    proof (cases ?m)
      case (Inl e)
      then have "convertToPDF pptPath h0 = (Rejected e, h1)"
        by (simp add: convertToPDF_def c True Let_def)
      then show ?thesis by simp
    next
      case (Inr d)
      let ?h2 = "h1\<lparr>disk := d\<rparr>"
      let ?f = "if existsSync d ?pp then
                  (case statSync d pptPath of
                     Inl e \<Rightarrow> Inl e
                   | Inr pptMtime \<Rightarrow>
                      (case statSync d ?pp of
                         Inl e \<Rightarrow> Inl e
                       | Inr pdfMtime \<Rightarrow> Inr (pdfMtime > pptMtime)))
                else Inr False"
      have u: "convertToPDF pptPath h0 =
          (case ?f of
             Inl e \<Rightarrow> (Rejected e, ?h2)
           | Inr fresh \<Rightarrow>
              (if fresh then (Resolved ?pp, ?h2)
               else convertToPDF_promise ?td ?pp pptPath ?h2))"
        using Inr by (simp add: convertToPDF_def c True Let_def cong: sum.case_cong if_cong)
      show ?thesis
      proof (cases ?f)
        case (Inl e)
        then have "convertToPDF pptPath h0 = (Rejected e, ?h2)"
          unfolding u by (simp only: sum.case)
        then show ?thesis by simp
      next
        case (Inr fresh)
        show ?thesis
        proof (cases fresh)
          case True
          with Inr have "convertToPDF pptPath h0 = (Resolved ?pp, ?h2)"
            unfolding u by (simp only: sum.case if_True)
          then show ?thesis by simp
        next
          case False
          with Inr have "convertToPDF pptPath h0 = convertToPDF_promise ?td ?pp pptPath ?h2"
            unfolding u by (simp only: sum.case if_False)
          moreover have "fst (checkLibreOfficeInstallation h0) = Resolved True"
            using c \<open>b\<close> by simp
          ultimately show ?thesis
            using pdf_promise_procs [of ?td ?pp pptPath ?h2] by (simp add: pf)
        qed
      qed
    qed
  qed
qed




lemma convertToPDF_promise_settles:
  "fst (convertToPDF_promise tempDir pdfPath pptPath h) \<noteq> Pending"
  using spawn_task_settled(2) [OF pdf_ok]
  by (simp add: convertToPDF_promise_def spawn_await_def case_prod_unfold Let_def)

lemma convertToPDF_settles: "fst (convertToPDF pptPath h) \<noteq> Pending"
  by (auto simp: convertToPDF_def check_eq Let_def convertToPDF_promise_settles
      split: sum.splits)

lemma loadPPT_not_installed:
  assumes "fst (checkLibreOfficeInstallation h) = Resolved False"
  shows "loadPPT pptPath h
     = ([PostMessage LibreOfficeNotInstalled], snd (checkLibreOfficeInstallation h))"
  using assms by (cases "checkLibreOfficeInstallation h") (simp add: loadPPT_def)

lemma loadPPT_installed:
  assumes "checkLibreOfficeInstallation h = (Resolved True, h1)"
  shows "loadPPT pptPath h
     = (case fst (convertToPDF pptPath h1) of
          Pending \<Rightarrow> [WithProgress]
        | Rejected e \<Rightarrow> WithProgress # catch_error e
        | Resolved pdfPath \<Rightarrow> WithProgress # loadPDF pdfPath (snd (convertToPDF pptPath h1)),
        snd (convertToPDF pptPath h1))"
  using assms
  by (cases "convertToPDF pptPath h1") (simp add: loadPPT_def split: promise.splits)

lemma loadPPT_procs:
  "\<exists>probe more. procs (snd (loadPPT pptPath h)) = procs h @ probe # more
      \<and> command probe = getLibreOfficePath (platform h) (existsSync (disk h))
      \<and> args probe = [''--version'']"
proof (cases "find settling (early 5000 (next_behaviour h)) = Some (EvClose (Some 0))")
  case False
  then have "fst (checkLibreOfficeInstallation h) = Resolved False" by (simp add: check_eq)
  then show ?thesis
    by (simp add: loadPPT_not_installed) (simp add: check_eq after_spawn_simps)
next
  case True
  let ?h1 = "snd (checkLibreOfficeInstallation h)"
  from True have c: "checkLibreOfficeInstallation h = (Resolved True, ?h1)"
    by (simp add: check_eq)
  have p1: "\<exists>probe. procs ?h1 = procs h @ [probe]
      \<and> command probe = getLibreOfficePath (platform h) (existsSync (disk h))
      \<and> args probe = [''--version'']"
    by (simp add: check_eq after_spawn_simps)
  have p2: "\<exists>more. procs (snd (convertToPDF pptPath ?h1)) = procs ?h1 @ more"
    using convertToPDF_procs [of pptPath ?h1]
    by (auto simp: check_eq after_spawn_simps)
  have "snd (loadPPT pptPath h) = snd (convertToPDF pptPath ?h1)"
    by (simp add: loadPPT_installed [OF c])
  then show ?thesis using p1 p2 by auto
qed

section \<open>Example runs\<close>

lemma ex_host_simps:
  "platform (ex_host d trs) = ''linux''" "tmpdir (ex_host d trs) = ''/t''"
  "disk (ex_host d trs) = d" "behaviours (ex_host d trs) = trs" "procs (ex_host d trs) = []"
  "asWebviewUri (ex_host d trs) = (\<lambda>p. p)"
  by (simp_all add: ex_host_def)

lemma ex_paths:
  "path_join ''linux'' ''/t'' ''muty-pptviewer'' = ''/t/muty-pptviewer''"
  "basename ''linux'' ''/d/a.ppt'' (extname ''linux'' ''/d/a.ppt'') = ''a''"
  "path_join ''linux'' ''/t/muty-pptviewer'' ''a.pdf'' = ''/t/muty-pptviewer/a.pdf''"
  by (simp_all add: path_join_def path_sep_def basename_def extname_def last_segment_def
      is_sep_def suffix_to_prefix Let_def)

lemma ex_stat:
  "stat ex_disk_cached ''/t/muty-pptviewer'' = Some 5"
  "stat ex_disk_cached ''/d/a.ppt'' = Some 10"
  "stat ex_disk_cached ''/t/muty-pptviewer/a.pdf'' = Some 20"
  by (simp_all add: ex_disk_cached_def ex_stat_cached_def)

lemma ex_stat_plain:
  "stat ex_disk_plain ''/t/muty-pptviewer'' = Some 5"
  "stat ex_disk_plain ''/d/a.ppt'' = Some 10"
  "stat ex_disk_plain ''/t/muty-pptviewer/a.pdf'' = None"
  by (simp_all add: ex_disk_plain_def ex_stat_plain_def)

lemma ex_probe:
  "checkLibreOfficeInstallation (ex_host d ([(120, EvClose (Some 0))] # trs))
     = (Resolved True,
        (ex_host d trs)\<lparr>procs := [\<lparr>command = ''libreoffice'', args = [''--version''],
                                   alive = False, sigterms = 0\<rparr>]\<rparr>)"
  "checkLibreOfficeInstallation (ex_host d ([(3, EvError ''ENOENT'')] # trs))
     = (Resolved False,
        (ex_host d trs)\<lparr>procs := [\<lparr>command = ''libreoffice'', args = [''--version''],
                                   alive = False, sigterms = 0\<rparr>]\<rparr>)"
  by (simp_all add: check_eq after_spawn_def ex_host_def next_behaviour_def settling_def
      ends_def quiet_prefix_def disk_after_def getLibreOfficePath_def)

lemma ex_find:
  "find settling (early 30000 (next_behaviour (ex_host d ([(30000, EvClose (Some 0))] # trs))))
     = None"
  "find settling (early 30000 (next_behaviour
       (ex_host d ([(10, EvStderr ''bad''), (20, EvClose (Some 1))] # trs))))
     = Some (EvClose (Some 1))"
  "find settling (early 30000 (next_behaviour (ex_host d ([(20, EvClose (Some 0))] # trs))))
     = Some (EvClose (Some 0))"
  by (simp_all add: ex_host_simps next_behaviour_def settling_def)

lemma ex_ends:
  "find ends (early 30000 (next_behaviour (ex_host d ([(30000, EvClose (Some 0))] # trs))))
     = None"
  "find ends (early 30000 (next_behaviour
       (ex_host d ([(10, EvStderr ''bad''), (20, EvClose (Some 1))] # trs))))
     = Some (EvClose (Some 1))"
  by (simp_all add: ex_host_simps next_behaviour_def ends_def)

lemma ex_retry_run:
  "checkLibreOfficeInstallation
     ((ex_host ex_disk_cached [[(120, EvClose (Some 0))], [(120, EvClose (Some 0))]])
        \<lparr>procs := [\<lparr>command = ''libreoffice'', args = [''--version''],
                     alive = False, sigterms = 0\<rparr>]\<rparr>)
   = (Resolved True,
      (ex_host ex_disk_cached [[(120, EvClose (Some 0))]])
        \<lparr>procs := [\<lparr>command = ''libreoffice'', args = [''--version''],
                      alive = False, sigterms = 0\<rparr>,
                    \<lparr>command = ''libreoffice'', args = [''--version''],
                      alive = False, sigterms = 0\<rparr>]\<rparr>)"
  "convertToPDF ''/d/a.ppt''
     ((ex_host ex_disk_cached [[(120, EvClose (Some 0))]])
        \<lparr>procs := [\<lparr>command = ''libreoffice'', args = [''--version''],
                      alive = False, sigterms = 0\<rparr>,
                    \<lparr>command = ''libreoffice'', args = [''--version''],
                      alive = False, sigterms = 0\<rparr>]\<rparr>)
   = (Resolved ''/t/muty-pptviewer/a.pdf'',
      (ex_host ex_disk_cached [])
        \<lparr>procs := [\<lparr>command = ''libreoffice'', args = [''--version''],
                      alive = False, sigterms = 0\<rparr>,
                    \<lparr>command = ''libreoffice'', args = [''--version''],
                      alive = False, sigterms = 0\<rparr>,
                    \<lparr>command = ''libreoffice'', args = [''--version''],
                      alive = False, sigterms = 0\<rparr>]\<rparr>)"
  "convertToPDF ''/d/a.ppt''
     ((ex_host ex_disk_cached [[(3, EvError ''ENOENT'')]])
        \<lparr>procs := [\<lparr>command = ''libreoffice'', args = [''--version''],
                      alive = False, sigterms = 0\<rparr>]\<rparr>)
   = (Rejected NotInstalled,
      (ex_host ex_disk_cached [])
        \<lparr>procs := [\<lparr>command = ''libreoffice'', args = [''--version''],
                      alive = False, sigterms = 0\<rparr>,
                    \<lparr>command = ''libreoffice'', args = [''--version''],
                      alive = False, sigterms = 0\<rparr>]\<rparr>)"
proof -
  let ?p = "\<lparr>command = ''libreoffice'', args = [''--version''], alive = False, sigterms = 0\<rparr>"
  let ?ok = "[(120, EvClose (Some 0))] :: trace"
  let ?h = "(ex_host ex_disk_cached [?ok, ?ok])\<lparr>procs := [?p]\<rparr>"
  let ?g = "(ex_host ex_disk_cached [[(3, EvError ''ENOENT'')]])\<lparr>procs := [?p]\<rparr>"
  have g: "checkLibreOfficeInstallation ?g
      = (Resolved False, (ex_host ex_disk_cached [])\<lparr>procs := [?p, ?p]\<rparr>)"
    by (simp add: check_eq after_spawn_def next_behaviour_def ex_host_def settling_def
        ends_def quiet_prefix_def disk_after_def getLibreOfficePath_def)
  show "convertToPDF ''/d/a.ppt'' ?g
      = (Rejected NotInstalled, (ex_host ex_disk_cached [])\<lparr>procs := [?p, ?p]\<rparr>)"
    using convertToPDF_not_installed [of ?g "''/d/a.ppt''"] by (simp add: g)
  let ?h1 = "(ex_host ex_disk_cached [?ok])\<lparr>procs := [?p, ?p]\<rparr>"
  let ?h2 = "(ex_host ex_disk_cached [])\<lparr>procs := [?p, ?p, ?p]\<rparr>"
  show "checkLibreOfficeInstallation ?h = (Resolved True, ?h1)"
    by (simp add: check_eq after_spawn_def next_behaviour_def ex_host_def settling_def
        ends_def quiet_prefix_def disk_after_def getLibreOfficePath_def)
  have c2: "checkLibreOfficeInstallation ?h1 = (Resolved True, ?h2)"
    by (simp add: check_eq after_spawn_def next_behaviour_def ex_host_def settling_def
        ends_def quiet_prefix_def disk_after_def getLibreOfficePath_def)
  have hf: "platform ?h2 = ''linux''" "tmpdir ?h2 = ''/t''" "disk ?h2 = ex_disk_cached"
    by (simp_all add: ex_host_def)
  show "convertToPDF ''/d/a.ppt'' ?h1 = (Resolved ''/t/muty-pptviewer/a.pdf'', ?h2)"
    using convertToPDF_cached [OF c2, of "''/d/a.ppt''" 10 20]
    by (simp add: hf ex_paths existsSync_def ex_stat)
qed



lemma ex_ext:
  "toLowerCase (extname ''linux'' ''/d/a.PPTX'') = ''.pptx''"
  "toLowerCase (extname ''linux'' ''/d/a.ppt'') = ''.ppt''"
  "toLowerCase (extname ''linux'' ''/d/a.pdf'') = ''.pdf''"
  "toLowerCase (extname ''linux'' ''/d/pptx'') = []"
  by code_simp+

section \<open>The cache short-circuit\<close>

text \<open>
  C1 as stated fails twice on a fresh cache entry: with the converter missing the call
  is rejected instead of returning the cached path, and with the converter present the
  call returns the cached path but has spawned one process, the probe.
\<close>

theorem convertToPDF_cache_counterexample:
  "path_join ''linux'' (path_join ''linux'' ''/t'' ''muty-pptviewer'')
     (basename ''linux'' ''/d/a.ppt'' (extname ''linux'' ''/d/a.ppt'') @ ''.pdf'')
     = ''/t/muty-pptviewer/a.pdf''
   \<and> stat ex_disk_cached ''/t/muty-pptviewer/a.pdf'' = Some 20
   \<and> stat ex_disk_cached ''/d/a.ppt'' = Some 10
   \<and> fst (convertToPDF ''/d/a.ppt'' (ex_host ex_disk_cached [[(3, EvError ''ENOENT'')]]))
       = Rejected NotInstalled
   \<and> fst (convertToPDF ''/d/a.ppt'' (ex_host ex_disk_cached [[(120, EvClose (Some 0))]]))
       = Resolved ''/t/muty-pptviewer/a.pdf''
   \<and> length (procs (snd (convertToPDF ''/d/a.ppt''
                (ex_host ex_disk_cached [[(120, EvClose (Some 0))]])))) = 1"
proof -
  let ?h1 = "(ex_host ex_disk_cached [])\<lparr>procs := [\<lparr>command = ''libreoffice'',
               args = [''--version''], alive = False, sigterms = 0\<rparr>]\<rparr>"
  have a: "convertToPDF ''/d/a.ppt'' (ex_host ex_disk_cached [[(3, EvError ''ENOENT'')]])
      = (Rejected NotInstalled, ?h1)"
    using convertToPDF_not_installed [of "ex_host ex_disk_cached [[(3, EvError ''ENOENT'')]]"]
    by (simp add: ex_probe)
  have b: "convertToPDF ''/d/a.ppt'' (ex_host ex_disk_cached [[(120, EvClose (Some 0))]])
      = (Resolved ''/t/muty-pptviewer/a.pdf'', ?h1)"
    using convertToPDF_cached [of "ex_host ex_disk_cached [[(120, EvClose (Some 0))]]" ?h1
        "''/d/a.ppt''" 10 20]
    by (simp add: ex_probe ex_host_simps ex_paths existsSync_def ex_stat)
  show ?thesis
    by (simp add: a b ex_paths ex_stat)
qed

text \<open>
  C1, amended. When the probe has resolved \<open>true\<close>, the scratch directory exists, and
  the file at the derived output path is strictly newer than the source, \<open>convertToPDF\<close>
  resolves with that path and spawns no conversion process: the probe is the only
  process of the call.
\<close>

theorem convertToPDF_cache_hit:
  fixes pptPath :: string and h0 :: host
  defines "h1 \<equiv> snd (checkLibreOfficeInstallation h0)"
  defines "tempDir \<equiv> path_join (platform h0) (tmpdir h0) ''muty-pptviewer''"
  defines "pdfPath \<equiv> path_join (platform h0) tempDir
             (basename (platform h0) pptPath (extname (platform h0) pptPath) @ ''.pdf'')"
  assumes "fst (checkLibreOfficeInstallation h0) = Resolved True"
    and "existsSync (disk h1) tempDir"
    and "stat (disk h1) pptPath = Some m0"
    and "stat (disk h1) pdfPath = Some m1"
    and "m0 < m1"
  shows "fst (convertToPDF pptPath h0) = Resolved pdfPath
       \<and> (\<exists>probe. procs (snd (convertToPDF pptPath h0)) = procs h0 @ [probe]
             \<and> args probe = [''--version''])"
proof -
  have c: "checkLibreOfficeInstallation h0 = (Resolved True, h1)"
    using assms(4) unfolding h1_def by (cases "checkLibreOfficeInstallation h0") simp
  have p: "platform h1 = platform h0" "tmpdir h1 = tmpdir h0"
    unfolding h1_def by (simp_all add: check_eq after_spawn_simps)
  have "convertToPDF pptPath h0 = (Resolved pdfPath, h1)"
    using convertToPDF_cached [OF c, of pptPath m0 m1] assms(5-8)
    unfolding tempDir_def pdfPath_def p by simp
  moreover have "\<exists>probe. procs h1 = procs h0 @ [probe] \<and> args probe = [''--version'']"
    unfolding h1_def by (simp add: check_eq after_spawn_simps)
  ultimately show ?thesis by simp
qed

theorem convertToPDF_cache_hit_witness:
  "fst (checkLibreOfficeInstallation (ex_host ex_disk_cached [[(120, EvClose (Some 0))]]))
     = Resolved True
   \<and> existsSync ex_disk_cached ''/t/muty-pptviewer''
   \<and> stat ex_disk_cached ''/d/a.ppt'' = Some 10
   \<and> stat ex_disk_cached ''/t/muty-pptviewer/a.pdf'' = Some 20
   \<and> fst (convertToPDF ''/d/a.ppt'' (ex_host ex_disk_cached [[(120, EvClose (Some 0))]]))
       = Resolved ''/t/muty-pptviewer/a.pdf''
   \<and> (\<exists>probe. procs (snd (convertToPDF ''/d/a.ppt''
                  (ex_host ex_disk_cached [[(120, EvClose (Some 0))]]))) = [probe]
         \<and> args probe = [''--version''])"
  using convertToPDF_cache_hit [of "ex_host ex_disk_cached [[(120, EvClose (Some 0))]]"
      "''/d/a.ppt''" 10 20]
  by (simp add: ex_probe ex_host_simps ex_paths existsSync_def ex_stat)

section \<open>The gate on the probe\<close>

text \<open>
  C2. Every call of \<open>convertToPDF\<close> first spawns the probe and awaits it; the probe
  always settles. If it resolves \<open>false\<close>, the call is rejected with \<open>NotInstalled\<close>
  and no further process is spawned. A conversion process is spawned only when the
  probe has resolved \<open>true\<close>, after the probe process has closed; it is the next
  entry after the probe in the order of spawning.
\<close>

theorem convertToPDF_gate:
  "(\<exists>b. fst (checkLibreOfficeInstallation h0) = Resolved b)
   \<and> (fst (checkLibreOfficeInstallation h0) = Resolved False
        \<longrightarrow> fst (convertToPDF pptPath h0) = Rejected NotInstalled
          \<and> procs (snd (convertToPDF pptPath h0)) = procs (snd (checkLibreOfficeInstallation h0)))
   \<and> (\<exists>probe. procs (snd (checkLibreOfficeInstallation h0)) = procs h0 @ [probe]
         \<and> args probe = [''--version''])
   \<and> (procs (snd (convertToPDF pptPath h0)) = procs (snd (checkLibreOfficeInstallation h0))
       \<or> (fst (checkLibreOfficeInstallation h0) = Resolved True
           \<and> \<not> alive (last (procs (snd (checkLibreOfficeInstallation h0))))
           \<and> (\<exists>conv. procs (snd (convertToPDF pptPath h0))
                        = procs (snd (checkLibreOfficeInstallation h0)) @ [conv]
                 \<and> args conv = [''--headless'', ''--convert-to'', ''pdf'', ''--outdir'',
                      path_join (platform h0) (tmpdir h0) ''muty-pptviewer'', pptPath])))"
proof -
  have a: "\<exists>b. fst (checkLibreOfficeInstallation h0) = Resolved b"
    by (simp add: check_eq)
  have b: "fst (checkLibreOfficeInstallation h0) = Resolved False
        \<longrightarrow> fst (convertToPDF pptPath h0) = Rejected NotInstalled
          \<and> procs (snd (convertToPDF pptPath h0)) = procs (snd (checkLibreOfficeInstallation h0))"
    by (simp add: convertToPDF_not_installed)
  have c: "\<exists>probe. procs (snd (checkLibreOfficeInstallation h0)) = procs h0 @ [probe]
         \<and> args probe = [''--version'']"
    by (simp add: check_eq after_spawn_simps)
  have dead: "fst (checkLibreOfficeInstallation h0) = Resolved True
      \<Longrightarrow> \<not> alive (last (procs (snd (checkLibreOfficeInstallation h0))))"
  proof -
    assume "fst (checkLibreOfficeInstallation h0) = Resolved True"
    then have "find settling (early 5000 (next_behaviour h0)) = Some (EvClose (Some 0))"
      by (simp add: check_eq)
    then have "EvClose (Some 0) \<in> set (early 5000 (next_behaviour h0))"
      by (auto simp: find_Some_iff)
    then have "EvClose (Some 0) \<in> set (map snd (next_behaviour h0))"
      by (simp flip: early_late [of 5000 "next_behaviour h0"])
    moreover have "ends (EvClose (Some 0))" by (simp add: ends_def)
    ultimately have "\<exists>e \<in> set (map snd (next_behaviour h0)). ends e" by blast
    then have "find ends (map snd (next_behaviour h0)) \<noteq> None"
      by (simp add: find_None)
    then show ?thesis by (simp add: check_eq after_spawn_simps)
  qed
  show ?thesis using a b c dead convertToPDF_procs [of pptPath h0] by blast
qed

theorem convertToPDF_gate_witness:
  "fst (checkLibreOfficeInstallation (ex_host ex_disk_cached [[(3, EvError ''ENOENT'')]]))
     = Resolved False
   \<and> fst (convertToPDF ''/d/a.ppt'' (ex_host ex_disk_cached [[(3, EvError ''ENOENT'')]]))
     = Rejected NotInstalled
   \<and> procs (snd (convertToPDF ''/d/a.ppt'' (ex_host ex_disk_cached [[(3, EvError ''ENOENT'')]])))
     = procs (snd (checkLibreOfficeInstallation
                (ex_host ex_disk_cached [[(3, EvError ''ENOENT'')]])))"
proof -
  have "fst (checkLibreOfficeInstallation (ex_host ex_disk_cached [[(3, EvError ''ENOENT'')]]))
     = Resolved False"
    by (simp add: check_eq ex_host_def next_behaviour_def settling_def)
  then show ?thesis
    using convertToPDF_gate [of "ex_host ex_disk_cached [[(3, EvError ''ENOENT'')]]" "''/d/a.ppt''"]
    by simp
qed

section \<open>The conversion and its timer\<close>

text \<open>
  C3 as stated fails for a child that has ended before the timer fires while its
  \<open>close\<close> event is still to come: the call is rejected with \<open>Timeout\<close>, but \<open>kill()\<close>
  finds no running process, and no termination signal is sent.
\<close>

theorem convertToPDF_timeout_counterexample:
  "fst (convertToPDF ''/d/a.ppt''
         (ex_host ex_disk_plain
            [[(120, EvClose (Some 0))], [(100, EvExit), (40000, EvClose (Some 0))]]))
     = Rejected (Timeout PdfStage)
   \<and> map sigterms (procs (snd (convertToPDF ''/d/a.ppt''
         (ex_host ex_disk_plain
            [[(120, EvClose (Some 0))], [(100, EvExit), (40000, EvClose (Some 0))]]))))
     = [0, 0]"
proof -
  let ?tr = "[(100, EvExit), (40000, EvClose (Some 0))]"
  let ?h1 = "(ex_host ex_disk_plain [?tr])\<lparr>procs := [\<lparr>command = ''libreoffice'',
               args = [''--version''], alive = False, sigterms = 0\<rparr>]\<rparr>"
  have n: "next_behaviour ?h1 = ?tr" by (simp add: next_behaviour_def ex_host_simps)
  have "convertToPDF ''/d/a.ppt'' (ex_host ex_disk_plain [[(120, EvClose (Some 0))], ?tr])
      = convertToPDF_promise ''/t/muty-pptviewer'' ''/t/muty-pptviewer/a.pdf'' ''/d/a.ppt'' ?h1"
    using convertToPDF_spawns [of "ex_host ex_disk_plain [[(120, EvClose (Some 0))], ?tr]" ?h1
        "''/d/a.ppt''"]
    by (simp add: ex_probe ex_host_simps ex_paths existsSync_def ex_stat_plain)
  then show ?thesis
    by (simp add: pdf_promise_eq after_spawn_simps n settling_def ends_def ex_host_simps)
qed

text \<open>
  C3, amended. In the promise block of \<open>convertToPDF\<close>, which is where the call spawns
  its conversion (lemma \<open>convertToPDF_reaches_promise\<close>), the timer is set to 30000 ms
  at the spawn. If no \<open>error\<close> or \<open>close\<close> event arrives within these 30000 ms, the call
  is rejected with \<open>Timeout\<close>, whatever arrives later, and the child is sent the
  termination signal if it is still running then; a child that has ended by then, its
  \<open>close\<close> event still to come, is sent none. If one arrives within them, the first such
  event decides: the outcome is the one the same run has when it ends with that event,
  it is not \<open>Timeout\<close>, and the timer's later callback sends no signal. In both cases
  the promise keeps, after all remaining events and callbacks, the state in which it
  settled.
\<close>

theorem convertToPDF_timeout_race:
  fixes h :: host and tempDir pdfPath pptPath :: string
  defines "evs \<equiv> early 30000 (next_behaviour h)"
  defines "run \<equiv> convertToPDF_promise tempDir pdfPath pptPath h"
  defines "task \<equiv> spawn_task (pdf_listeners pdfPath) pdf_timeout 30000
                    (getLibreOfficePath (platform h) (existsSync (disk h)))
                    [''--headless'', ''--convert-to'', ''pdf'', ''--outdir'', tempDir, pptPath] h"
  shows "(find settling evs = None \<longrightarrow>
            fst run = Rejected (Timeout PdfStage)
          \<and> sigterms (last (procs (snd run))) = (if find ends evs = None then 1 else 0))
       \<and> (\<forall>e. find settling evs = Some e \<longrightarrow>
            fst run \<noteq> Rejected (Timeout PdfStage)
          \<and> fst run = fst (convertToPDF_promise tempDir pdfPath pptPath
                             (h\<lparr>behaviours := [map (Pair 0) (quiet_prefix evs @ [e])]\<rparr>))
          \<and> sigterms (last (procs (snd run))) = 0)
       \<and> fst run = promise (fst task)
       \<and> promise (snd task) = promise (fst task)"
proof -
  have a: "find settling evs = None \<longrightarrow>
            fst run = Rejected (Timeout PdfStage)
          \<and> sigterms (last (procs (snd run))) = (if find ends evs = None then 1 else 0)"
    unfolding run_def evs_def by (simp add: pdf_promise_eq after_spawn_simps)
  have b: "fst run \<noteq> Rejected (Timeout PdfStage)
          \<and> fst run = fst (convertToPDF_promise tempDir pdfPath pptPath
                             (h\<lparr>behaviours := [map (Pair 0) (quiet_prefix evs @ [e])]\<rparr>))
          \<and> sigterms (last (procs (snd run))) = 0"
    if some: "find settling evs = Some e" for e
  proof -
    let ?h' = "h\<lparr>behaviours := [map (Pair 0) (quiet_prefix evs @ [e])]\<rparr>"
    have n: "early 30000 (next_behaviour ?h') = quiet_prefix evs @ [e]"
      by (simp add: next_behaviour_def early_zero del: map_append)
    note f = find_Some_prefix [OF some]
    have 1: "fst run = fst (convertToPDF_promise tempDir pdfPath pptPath ?h')"
      unfolding run_def pdf_promise_eq n using some f
      by (cases e) (auto simp: evs_def [symmetric])
    have 2: "fst run \<noteq> Rejected (Timeout PdfStage)"
      unfolding run_def pdf_promise_eq using some f(1)
      by (cases e) (simp_all add: evs_def [symmetric] settling_def)
    have "find ends evs \<noteq> None" using some by (intro settled_ended) simp
    then have 3: "sigterms (last (procs (snd run))) = 0"
      unfolding run_def pdf_promise_eq evs_def
      by (simp add: after_spawn_simps)
    show ?thesis using 1 2 3 by simp
  qed
  have c: "fst run = promise (fst task)"
    unfolding run_def task_def convertToPDF_promise_def spawn_await_def
    by (simp add: case_prod_unfold Let_def)
  have d: "promise (snd task) = promise (fst task)"
    unfolding task_def by (rule spawn_task_settled [OF pdf_ok])
  show ?thesis using a b c d by blast
qed

theorem convertToPDF_timeout_race_witness:
  "find settling (early 30000 (next_behaviour
       (ex_host ex_disk_plain [[(30000, EvClose (Some 0))]]))) = None
   \<and> find ends (early 30000 (next_behaviour
       (ex_host ex_disk_plain [[(30000, EvClose (Some 0))]]))) = None
   \<and> fst (convertToPDF_promise ''/t/muty-pptviewer'' ''/t/muty-pptviewer/a.pdf'' ''/d/a.ppt''
            (ex_host ex_disk_plain [[(30000, EvClose (Some 0))]])) = Rejected (Timeout PdfStage)
   \<and> sigterms (last (procs (snd (convertToPDF_promise ''/t/muty-pptviewer''
            ''/t/muty-pptviewer/a.pdf'' ''/d/a.ppt''
            (ex_host ex_disk_plain [[(30000, EvClose (Some 0))]]))))) = 1
   \<and> find settling (early 30000 (next_behaviour
       (ex_host ex_disk_plain [[(10, EvStderr ''bad''), (20, EvClose (Some 1))]])))
       = Some (EvClose (Some 1))
   \<and> fst (convertToPDF_promise ''/t/muty-pptviewer'' ''/t/muty-pptviewer/a.pdf'' ''/d/a.ppt''
            (ex_host ex_disk_plain [[(10, EvStderr ''bad''), (20, EvClose (Some 1))]]))
       \<noteq> Rejected (Timeout PdfStage)
   \<and> sigterms (last (procs (snd (convertToPDF_promise ''/t/muty-pptviewer''
            ''/t/muty-pptviewer/a.pdf'' ''/d/a.ppt''
            (ex_host ex_disk_plain [[(10, EvStderr ''bad''), (20, EvClose (Some 1))]]))))) = 0"
proof -
  note none = ex_find(1) [of ex_disk_plain "[]"]
  note running = ex_ends(1) [of ex_disk_plain "[]"]
  note some = ex_find(2) [of ex_disk_plain "[]"]
  from none running
    convertToPDF_timeout_race [where h = "ex_host ex_disk_plain [[(30000, EvClose (Some 0))]]"
      and tempDir = "''/t/muty-pptviewer''" and pdfPath = "''/t/muty-pptviewer/a.pdf''"
      and pptPath = "''/d/a.ppt''"]
  have a: "fst (convertToPDF_promise ''/t/muty-pptviewer'' ''/t/muty-pptviewer/a.pdf''
            ''/d/a.ppt'' (ex_host ex_disk_plain [[(30000, EvClose (Some 0))]]))
          = Rejected (Timeout PdfStage)
      \<and> sigterms (last (procs (snd (convertToPDF_promise ''/t/muty-pptviewer''
            ''/t/muty-pptviewer/a.pdf'' ''/d/a.ppt''
            (ex_host ex_disk_plain [[(30000, EvClose (Some 0))]]))))) = 1"
    by simp
  from some
    convertToPDF_timeout_race [where h = "ex_host ex_disk_plain
        [[(10, EvStderr ''bad''), (20, EvClose (Some 1))]]"
      and tempDir = "''/t/muty-pptviewer''" and pdfPath = "''/t/muty-pptviewer/a.pdf''"
      and pptPath = "''/d/a.ppt''"]
  have b: "fst (convertToPDF_promise ''/t/muty-pptviewer'' ''/t/muty-pptviewer/a.pdf''
            ''/d/a.ppt''
            (ex_host ex_disk_plain [[(10, EvStderr ''bad''), (20, EvClose (Some 1))]]))
          \<noteq> Rejected (Timeout PdfStage)
      \<and> sigterms (last (procs (snd (convertToPDF_promise ''/t/muty-pptviewer''
            ''/t/muty-pptviewer/a.pdf'' ''/d/a.ppt''
            (ex_host ex_disk_plain [[(10, EvStderr ''bad''), (20, EvClose (Some 1))]])))))
          = 0"
    by blast
  show ?thesis using a b none running some by simp
qed

section \<open>The exit of the conversion process\<close>



section \<open>The raster images\<close>



section \<open>The availability probe\<close>

text \<open>
  C6 as stated fails in its last part for a probe that has ended within the 5000 ms
  while its \<open>close\<close> event comes later: the call resolves \<open>false\<close> on the timer, but
  \<open>kill()\<close> finds no running process, and no termination signal is sent.
\<close>

theorem checkLibreOfficeInstallation_timeout_counterexample:
  "fst (checkLibreOfficeInstallation
          (ex_host ex_disk_plain [[(100, EvExit), (6000, EvClose (Some 0))]]))
     = Resolved False
   \<and> map sigterms (procs (snd (checkLibreOfficeInstallation
          (ex_host ex_disk_plain [[(100, EvExit), (6000, EvClose (Some 0))]]))))
     = [0]"
  by (simp add: check_eq after_spawn_simps ex_host_simps next_behaviour_def settling_def
      ends_def)

text \<open>
  C6, amended. \<open>checkLibreOfficeInstallation\<close> always resolves, with a boolean, and
  never rejects. It resolves \<open>true\<close> exactly when the first \<open>error\<close> or \<open>close\<close> event of
  the probe process arrives within 5000 ms of the spawn and is a \<open>close\<close> with exit
  code 0. So it resolves \<open>false\<close> when that first event is a spawn error or a close
  with another code, and when neither arrives within 5000 ms. The probe is spawned
  with the single argument \<open>--version\<close>. It is sent the termination signal exactly when
  the timer finds it still running: it has not ended within the 5000 ms. A probe that
  has ended by then, its \<open>close\<close> event still to come, is sent none.
\<close>

theorem checkLibreOfficeInstallation_outcome:
  "fst (checkLibreOfficeInstallation h)
     = Resolved (find settling (early 5000 (next_behaviour h)) = Some (EvClose (Some 0)))
   \<and> (\<exists>probe. procs (snd (checkLibreOfficeInstallation h)) = procs h @ [probe]
         \<and> args probe = [''--version'']
         \<and> sigterms probe
             = (if find ends (early 5000 (next_behaviour h)) = None then 1 else 0))"
  by (simp add: check_eq after_spawn_simps)

theorem checkLibreOfficeInstallation_outcome_witness:
  "fst (checkLibreOfficeInstallation (ex_host ex_disk_cached [[(120, EvClose (Some 0))]]))
     = Resolved True
   \<and> fst (checkLibreOfficeInstallation (ex_host ex_disk_cached [[(3, EvError ''ENOENT'')]]))
     = Resolved False
   \<and> fst (checkLibreOfficeInstallation (ex_host ex_disk_cached [[(120, EvClose (Some 1))]]))
     = Resolved False
   \<and> fst (checkLibreOfficeInstallation (ex_host ex_disk_cached [[(5000, EvClose (Some 0))]]))
     = Resolved False
   \<and> (\<exists>probe. procs (snd (checkLibreOfficeInstallation
                  (ex_host ex_disk_cached [[(5000, EvClose (Some 0))]]))) = [probe]
         \<and> sigterms probe = 1)"
  using checkLibreOfficeInstallation_outcome [of "ex_host ex_disk_cached [[(120, EvClose (Some 0))]]"]
    checkLibreOfficeInstallation_outcome [of "ex_host ex_disk_cached [[(3, EvError ''ENOENT'')]]"]
    checkLibreOfficeInstallation_outcome [of "ex_host ex_disk_cached [[(120, EvClose (Some 1))]]"]
    checkLibreOfficeInstallation_outcome [of "ex_host ex_disk_cached [[(5000, EvClose (Some 0))]]"]
  apply (simp add: ex_host_def next_behaviour_def settling_def ends_def)
  apply auto
  done

section \<open>The child process after a failure\<close>

text \<open>
  C7 as stated fails on every failure path but the timeout: a conversion that exits
  with code 1 is rejected with \<open>NonZeroExit\<close>, and neither it nor the probe is ever
  sent a termination signal.
\<close>

theorem conversion_kill_counterexample:
  "fst (convertToPDF ''/d/a.ppt''
         (ex_host ex_disk_plain
            [[(120, EvClose (Some 0))], [(10, EvStderr ''bad''), (20, EvClose (Some 1))]]))
     = Rejected (NonZeroExit PdfStage (Some 1) ''bad'')
   \<and> map sigterms (procs (snd (convertToPDF ''/d/a.ppt''
         (ex_host ex_disk_plain
            [[(120, EvClose (Some 0))], [(10, EvStderr ''bad''), (20, EvClose (Some 1))]]))))
     = [0, 0]"
proof -
  let ?tr = "[(10, EvStderr ''bad''), (20, EvClose (Some 1))]"
  let ?h1 = "(ex_host ex_disk_plain [?tr])\<lparr>procs := [\<lparr>command = ''libreoffice'',
               args = [''--version''], alive = False, sigterms = 0\<rparr>]\<rparr>"
  have n: "next_behaviour ?h1 = ?tr" by (simp add: next_behaviour_def ex_host_simps)
  have "convertToPDF ''/d/a.ppt'' (ex_host ex_disk_plain [[(120, EvClose (Some 0))], ?tr])
      = convertToPDF_promise ''/t/muty-pptviewer'' ''/t/muty-pptviewer/a.pdf'' ''/d/a.ppt'' ?h1"
    using convertToPDF_spawns [of "ex_host ex_disk_plain [[(120, EvClose (Some 0))], ?tr]" ?h1
        "''/d/a.ppt''"]
    by (simp add: ex_probe ex_host_simps ex_paths existsSync_def ex_stat_plain)
  then show ?thesis
    by (simp add: pdf_promise_eq after_spawn_simps n settling_def ends_def quiet_prefix_def
        stderr_text_def ex_host_simps)
qed

text \<open>
  C7, amended. After a conversion attempt, whatever its outcome, the child is no longer
  running (it has ended, or could not be started) or has been sent the termination
  signal. The signal is sent by the callback of the 30000 ms timer only, and only to a
  child that is still running then, one that has not ended within the 30000 ms. A child
  whose \<open>close\<close> or \<open>error\<close> event settled the call (the failures \<open>SpawnFailure\<close>,
  \<open>NonZeroExit\<close>, \<open>OutputMissing\<close>, \<open>NoOutputFiles\<close> among them) is gone by then and is
  sent none. This holds for the PDF conversion and for the raster conversion.
\<close>

theorem conversion_child_fate:
  fixes h :: host and tempDir pdfPath pptPath fileName :: string
  defines "evs \<equiv> early 30000 (next_behaviour h)"
  defines "pdf \<equiv> last (procs (snd (convertToPDF_promise tempDir pdfPath pptPath h)))"
  defines "img \<equiv> last (procs (snd (convertToImages_promise tempDir fileName pdfPath h)))"
  shows "(\<not> alive pdf \<or> sigterms pdf = 1)
       \<and> sigterms pdf = (if find ends evs = None then 1 else 0)
       \<and> (\<not> alive img \<or> sigterms img = 1)
       \<and> sigterms img = (if find ends evs = None then 1 else 0)"
  using early_ends [of 30000 "next_behaviour h"]
  unfolding pdf_def img_def evs_def
  by (auto simp: pdf_promise_eq image_promise_eq after_spawn_simps)

theorem conversion_child_fate_witness:
  "\<not> alive (last (procs (snd (convertToPDF_promise ''/t/muty-pptviewer''
        ''/t/muty-pptviewer/a.pdf'' ''/d/a.ppt''
        (ex_host ex_disk_plain [[(10, EvStderr ''bad''), (20, EvClose (Some 1))]])))))
   \<and> sigterms (last (procs (snd (convertToPDF_promise ''/t/muty-pptviewer''
        ''/t/muty-pptviewer/a.pdf'' ''/d/a.ppt''
        (ex_host ex_disk_plain [[(10, EvStderr ''bad''), (20, EvClose (Some 1))]]))))) = 0
   \<and> sigterms (last (procs (snd (convertToImages_promise ''/t/muty-pptviewer'' ''a''
        ''/t/muty-pptviewer/a.pdf''
        (ex_host ex_disk_plain [[(30000, EvClose (Some 0))]]))))) = 1
   \<and> alive (last (procs (snd (convertToPDF_promise ''/t/muty-pptviewer''
        ''/t/muty-pptviewer/a.pdf'' ''/d/a.ppt'' (ex_host ex_disk_plain [[]])))))
   \<and> sigterms (last (procs (snd (convertToPDF_promise ''/t/muty-pptviewer''
        ''/t/muty-pptviewer/a.pdf'' ''/d/a.ppt'' (ex_host ex_disk_plain [[]]))))) = 1
   \<and> alive (last (procs (snd (convertToImages_promise ''/t/muty-pptviewer'' ''a''
        ''/t/muty-pptviewer/a.pdf'' (ex_host ex_disk_plain [[]])))))
   \<and> sigterms (last (procs (snd (convertToImages_promise ''/t/muty-pptviewer'' ''a''
        ''/t/muty-pptviewer/a.pdf'' (ex_host ex_disk_plain [[]]))))) = 1"
proof -
  note some = ex_ends(2) [of ex_disk_plain "[]"]
  note none = ex_ends(1) [of ex_disk_plain "[]"]
  from some conversion_child_fate [where h = "ex_host ex_disk_plain
        [[(10, EvStderr ''bad''), (20, EvClose (Some 1))]]"
      and tempDir = "''/t/muty-pptviewer''" and pdfPath = "''/t/muty-pptviewer/a.pdf''"
      and pptPath = "''/d/a.ppt''" and fileName = "''a''"]
  have a: "\<not> alive (last (procs (snd (convertToPDF_promise ''/t/muty-pptviewer''
        ''/t/muty-pptviewer/a.pdf'' ''/d/a.ppt''
        (ex_host ex_disk_plain [[(10, EvStderr ''bad''), (20, EvClose (Some 1))]])))))
     \<and> sigterms (last (procs (snd (convertToPDF_promise ''/t/muty-pptviewer''
        ''/t/muty-pptviewer/a.pdf'' ''/d/a.ppt''
        (ex_host ex_disk_plain [[(10, EvStderr ''bad''), (20, EvClose (Some 1))]]))))) = 0"
    by auto
  from none conversion_child_fate [where h = "ex_host ex_disk_plain
        [[(30000, EvClose (Some 0))]]"
      and tempDir = "''/t/muty-pptviewer''" and pdfPath = "''/t/muty-pptviewer/a.pdf''"
      and pptPath = "''/d/a.ppt''" and fileName = "''a''"]
  have b: "sigterms (last (procs (snd (convertToImages_promise ''/t/muty-pptviewer'' ''a''
        ''/t/muty-pptviewer/a.pdf''
        (ex_host ex_disk_plain [[(30000, EvClose (Some 0))]]))))) = 1"
    by simp
  have silent: "next_behaviour (ex_host ex_disk_plain [[]]) = []"
    by (simp add: next_behaviour_def ex_host_simps)
  have c: "alive (last (procs (snd (convertToPDF_promise ''/t/muty-pptviewer''
        ''/t/muty-pptviewer/a.pdf'' ''/d/a.ppt'' (ex_host ex_disk_plain [[]])))))"
    "alive (last (procs (snd (convertToImages_promise ''/t/muty-pptviewer'' ''a''
        ''/t/muty-pptviewer/a.pdf'' (ex_host ex_disk_plain [[]])))))"
    by (simp_all add: pdf_promise_eq image_promise_eq after_spawn_simps silent)
  from c conversion_child_fate [where h = "ex_host ex_disk_plain [[]]"
      and tempDir = "''/t/muty-pptviewer''" and pdfPath = "''/t/muty-pptviewer/a.pdf''"
      and pptPath = "''/d/a.ppt''" and fileName = "''a''"]
  have d: "sigterms (last (procs (snd (convertToPDF_promise ''/t/muty-pptviewer''
        ''/t/muty-pptviewer/a.pdf'' ''/d/a.ppt'' (ex_host ex_disk_plain [[]]))))) = 1"
    "sigterms (last (procs (snd (convertToImages_promise ''/t/muty-pptviewer'' ''a''
        ''/t/muty-pptviewer/a.pdf'' (ex_host ex_disk_plain [[]]))))) = 1"
    by blast+
  show ?thesis using a b c d by simp
qed

section \<open>The retry signal\<close>

text \<open>
  C8. On \<open>retryLibreOfficeCheck\<close> the listener runs \<open>_loadPPT\<close>, as it does on
  \<open>ready\<close>, and sets no timer. Whatever happened before in the session, the run begins
  by spawning a new probe (\<open>--version\<close>) and goes by what this probe reports. When it
  resolves \<open>false\<close>, \<open>libreOfficeNotInstalled\<close> is posted and nothing else is done.
  When it resolves \<open>true\<close>, \<open>convertToPDF\<close> is run on the host the probe left: the
  progress notice is shown, the conversion settles, and then either the failure is
  shown and posted to the webview, or the PDF is handed to the webview (or, if the file
  is not there, the webview is told so).
\<close>

theorem retry_probes_again:
  fixes fsPath :: string and h :: host
  defines "probe \<equiv> checkLibreOfficeInstallation h"
  defines "conv \<equiv> convertToPDF fsPath (snd probe)"
  defines "retry \<equiv> onDidReceiveMessage fsPath RetryLibreOfficeCheck h"
  shows "retry = (fst (loadPPT fsPath h), [], snd (loadPPT fsPath h))
   \<and> onDidReceiveMessage fsPath Ready h
       = (fst (loadPPT fsPath h), [(2000, FocusFilesExplorer)], snd (loadPPT fsPath h))
   \<and> (\<exists>p more. procs (snd (snd retry)) = procs h @ p # more
         \<and> command p = getLibreOfficePath (platform h) (existsSync (disk h))
         \<and> args p = [''--version''])
   \<and> (fst probe = Resolved False
        \<longrightarrow> retry = ([PostMessage LibreOfficeNotInstalled], [], snd probe))
   \<and> (fst probe = Resolved True
        \<longrightarrow> snd (snd retry) = snd conv
          \<and> fst conv \<noteq> Pending
          \<and> (\<forall>e. fst conv = Rejected e
                \<longrightarrow> fst retry = [WithProgress, ShowErrorMessage (ConvertFailed e),
                                 PostMessage (ErrorMessage (ConvertFailed e))])
          \<and> (\<forall>pdf. fst conv = Resolved pdf
                \<longrightarrow> fst retry
                    = [WithProgress,
                       PostMessage (if existsSync (disk (snd conv)) pdf
                                    then LoadPDF (asWebviewUri (snd conv) pdf)
                                    else ErrorMessage PdfNotCreated)]))"
proof -
  have r: "retry = (fst (loadPPT fsPath h), [], snd (loadPPT fsPath h))"
    by (simp add: retry_def onDidReceiveMessage_def case_prod_unfold Let_def)
  have a: "onDidReceiveMessage fsPath Ready h
       = (fst (loadPPT fsPath h), [(2000, FocusFilesExplorer)], snd (loadPPT fsPath h))"
    by (simp add: onDidReceiveMessage_def case_prod_unfold Let_def)
  have p: "\<exists>p more. procs (snd (snd retry)) = procs h @ p # more
         \<and> command p = getLibreOfficePath (platform h) (existsSync (disk h))
         \<and> args p = [''--version'']"
    using loadPPT_procs [of fsPath h] by (simp add: r)
  have f: "retry = ([PostMessage LibreOfficeNotInstalled], [], snd probe)"
    if "fst probe = Resolved False"
    using that by (simp add: r probe_def loadPPT_not_installed)
  have t: "snd (snd retry) = snd conv
          \<and> fst conv \<noteq> Pending
          \<and> (\<forall>e. fst conv = Rejected e
                \<longrightarrow> fst retry = [WithProgress, ShowErrorMessage (ConvertFailed e),
                                 PostMessage (ErrorMessage (ConvertFailed e))])
          \<and> (\<forall>pdf. fst conv = Resolved pdf
                \<longrightarrow> fst retry
                    = [WithProgress,
                       PostMessage (if existsSync (disk (snd conv)) pdf
                                    then LoadPDF (asWebviewUri (snd conv) pdf)
                                    else ErrorMessage PdfNotCreated)])"
    if "fst probe = Resolved True"
  proof -
    from that have c: "checkLibreOfficeInstallation h = (Resolved True, snd probe)"
      unfolding probe_def by (cases "checkLibreOfficeInstallation h") simp
    have l: "loadPPT fsPath h
       = (case fst conv of
            Pending \<Rightarrow> [WithProgress]
          | Rejected e \<Rightarrow> WithProgress # catch_error e
          | Resolved pdfPath \<Rightarrow> WithProgress # loadPDF pdfPath (snd conv),
          snd conv)"
      unfolding conv_def by (rule loadPPT_installed [OF c])
    have s: "fst conv \<noteq> Pending" unfolding conv_def by (rule convertToPDF_settles)
    show ?thesis
      using s by (auto simp: r l catch_error_def loadPDF_def)
  qed
  show ?thesis using r a p f t by blast
qed

text \<open>
  A session in which the converter is installed between the first attempt and the
  retry: the first probe fails and \<open>libreOfficeNotInstalled\<close> is posted; on the retry,
  from the host that attempt left, a new probe finds the converter and the cached PDF
  is handed to the webview. And a run in which the converter is lost between the probe
  of \<open>_loadPPT\<close> and the probe of \<open>convertToPDF\<close>: the failure is shown and posted.
\<close>

theorem retry_probes_again_witness:
  "fst (checkLibreOfficeInstallation
         (ex_host ex_disk_cached
            [[(3, EvError ''ENOENT'')], [(120, EvClose (Some 0))], [(120, EvClose (Some 0))]]))
     = Resolved False
   \<and> onDidReceiveMessage ''/d/a.ppt'' RetryLibreOfficeCheck
       (ex_host ex_disk_cached
          [[(3, EvError ''ENOENT'')], [(120, EvClose (Some 0))], [(120, EvClose (Some 0))]])
     = ([PostMessage LibreOfficeNotInstalled], [],
        (ex_host ex_disk_cached [[(120, EvClose (Some 0))], [(120, EvClose (Some 0))]])
          \<lparr>procs := [\<lparr>command = ''libreoffice'', args = [''--version''],
                       alive = False, sigterms = 0\<rparr>]\<rparr>)
   \<and> fst (checkLibreOfficeInstallation
         ((ex_host ex_disk_cached [[(120, EvClose (Some 0))], [(120, EvClose (Some 0))]])
            \<lparr>procs := [\<lparr>command = ''libreoffice'', args = [''--version''],
                         alive = False, sigterms = 0\<rparr>]\<rparr>))
     = Resolved True
   \<and> fst (onDidReceiveMessage ''/d/a.ppt'' RetryLibreOfficeCheck
         ((ex_host ex_disk_cached [[(120, EvClose (Some 0))], [(120, EvClose (Some 0))]])
            \<lparr>procs := [\<lparr>command = ''libreoffice'', args = [''--version''],
                         alive = False, sigterms = 0\<rparr>]\<rparr>))
     = [WithProgress, PostMessage (LoadPDF ''/t/muty-pptviewer/a.pdf'')]
   \<and> fst (checkLibreOfficeInstallation
         (ex_host ex_disk_cached [[(120, EvClose (Some 0))], [(3, EvError ''ENOENT'')]]))
     = Resolved True
   \<and> fst (onDidReceiveMessage ''/d/a.ppt'' RetryLibreOfficeCheck
         (ex_host ex_disk_cached [[(120, EvClose (Some 0))], [(3, EvError ''ENOENT'')]]))
     = [WithProgress, ShowErrorMessage (ConvertFailed NotInstalled),
        PostMessage (ErrorMessage (ConvertFailed NotInstalled))]"
proof -
  let ?p = "\<lparr>command = ''libreoffice'', args = [''--version''], alive = False, sigterms = 0\<rparr>"
  let ?ok = "[(120, EvClose (Some 0))] :: trace"
  let ?first = "ex_host ex_disk_cached [[(3, EvError ''ENOENT'')], ?ok, ?ok]"
  let ?h = "(ex_host ex_disk_cached [?ok, ?ok])\<lparr>procs := [?p]\<rparr>"
  let ?h1 = "(ex_host ex_disk_cached [?ok])\<lparr>procs := [?p, ?p]\<rparr>"
  let ?h2 = "(ex_host ex_disk_cached [])\<lparr>procs := [?p, ?p, ?p]\<rparr>"
  note no = ex_probe(2) [of ex_disk_cached "[?ok, ?ok]"]
  note yes = ex_retry_run(1)
  note pdf = ex_retry_run(2)
  have a: "fst (checkLibreOfficeInstallation ?first) = Resolved False" by (simp add: no)
  have b: "fst (checkLibreOfficeInstallation ?h) = Resolved True" by (simp add: yes)
  from a retry_probes_again [where h = ?first and fsPath = "''/d/a.ppt''"]
  have "onDidReceiveMessage ''/d/a.ppt'' RetryLibreOfficeCheck ?first
     = ([PostMessage LibreOfficeNotInstalled], [], snd (checkLibreOfficeInstallation ?first))"
    by blast
  then have c: "onDidReceiveMessage ''/d/a.ppt'' RetryLibreOfficeCheck ?first
     = ([PostMessage LibreOfficeNotInstalled], [], ?h)"
    by (simp add: no)
  have conv: "fst (convertToPDF ''/d/a.ppt'' (snd (checkLibreOfficeInstallation ?h)))
       = Resolved ''/t/muty-pptviewer/a.pdf''"
    "snd (convertToPDF ''/d/a.ppt'' (snd (checkLibreOfficeInstallation ?h))) = ?h2"
    by (simp_all add: yes pdf)
  from b conv(1) retry_probes_again [where h = ?h and fsPath = "''/d/a.ppt''"]
  have "fst (onDidReceiveMessage ''/d/a.ppt'' RetryLibreOfficeCheck ?h)
     = [WithProgress,
        PostMessage (if existsSync
               (disk (snd (convertToPDF ''/d/a.ppt'' (snd (checkLibreOfficeInstallation ?h)))))
               ''/t/muty-pptviewer/a.pdf''
           then LoadPDF (asWebviewUri
               (snd (convertToPDF ''/d/a.ppt'' (snd (checkLibreOfficeInstallation ?h))))
               ''/t/muty-pptviewer/a.pdf'')
           else ErrorMessage PdfNotCreated)]"
    by blast
  then have d: "fst (onDidReceiveMessage ''/d/a.ppt'' RetryLibreOfficeCheck ?h)
     = [WithProgress, PostMessage (LoadPDF ''/t/muty-pptviewer/a.pdf'')]"
    by (simp add: conv(2) ex_host_simps existsSync_def ex_stat)
  let ?lost = "ex_host ex_disk_cached [?ok, [(3, EvError ''ENOENT'')]]"
  note gone = ex_probe(1) [of ex_disk_cached "[[(3, EvError ''ENOENT'')]]"]
  have e: "fst (checkLibreOfficeInstallation ?lost) = Resolved True" by (simp add: gone)
  have rej: "fst (convertToPDF ''/d/a.ppt'' (snd (checkLibreOfficeInstallation ?lost)))
       = Rejected NotInstalled"
    by (simp add: gone ex_retry_run(3))
  from e rej retry_probes_again [where h = ?lost and fsPath = "''/d/a.ppt''"]
  have f: "fst (onDidReceiveMessage ''/d/a.ppt'' RetryLibreOfficeCheck ?lost)
     = [WithProgress, ShowErrorMessage (ConvertFailed NotInstalled),
        PostMessage (ErrorMessage (ConvertFailed NotInstalled))]"
    by blast
  show ?thesis using a b c d e f by simp
qed

section \<open>The converter locator\<close>

text \<open>
  C9. The locator is a function of the platform and of whether the two known
  installation paths exist, and of nothing else; it always returns a path. On
  \<open>darwin\<close> the path is the fixed one inside the application bundle. On \<open>win32\<close> it is
  the first of the known installation paths that exists, in their order, and the bare
  command \<open>soffice.exe\<close> when none exists. On every other platform it is the bare
  command \<open>libreoffice\<close>.
\<close>

theorem getLibreOfficePath_cases:
  "getLibreOfficePath plat ex =
     (if plat = ''darwin'' then ''/Applications/LibreOffice.app/Contents/MacOS/soffice''
      else if plat = ''win32'' then
        (if ex (possiblePaths ! 0) then possiblePaths ! 0
         else if ex (possiblePaths ! 1) then possiblePaths ! 1
         else ''soffice.exe'')
      else ''libreoffice'')
   \<and> length possiblePaths = 2
   \<and> getLibreOfficePath plat ex =
       getLibreOfficePath plat (\<lambda>p. p \<in> set possiblePaths \<and> ex p)"
  by (simp add: getLibreOfficePath_def possiblePaths_def)

theorem getLibreOfficePath_cases_witness:
  "getLibreOfficePath ''win32'' (\<lambda>p. p = possiblePaths ! 1) = possiblePaths ! 1
   \<and> getLibreOfficePath ''win32'' (\<lambda>p. True) = possiblePaths ! 0
   \<and> getLibreOfficePath ''win32'' (\<lambda>p. False) = ''soffice.exe''
   \<and> getLibreOfficePath ''linux'' (\<lambda>p. True) = ''libreoffice''"
  using getLibreOfficePath_cases [of "''win32''" "\<lambda>p. p = possiblePaths ! 1"]
    getLibreOfficePath_cases [of "''win32''" "\<lambda>p. True"]
    getLibreOfficePath_cases [of "''win32''" "\<lambda>p. False"]
    getLibreOfficePath_cases [of "''linux''" "\<lambda>p. True"]
  by (simp add: possiblePaths_def bs_def)

section \<open>The open-preview command\<close>

text \<open>
  C10. The command opens the custom editor exactly when it is given a URI whose file
  extension, in lower case, is \<open>.pptx\<close> or \<open>.ppt\<close>, and then it opens that file with
  the preview editor and shows nothing else. Without a URI, and with any other
  extension, it shows one error message and opens nothing.
\<close>

theorem openPPTCommand_guard:
  "((\<exists>p v. OpenWith p v \<in> set (openPPTCommand plat uri))
      \<longleftrightarrow> (\<exists>p. uri = Some p \<and> toLowerCase (extname plat p) \<in> {''.pptx'', ''.ppt''}))
   \<and> (\<forall>p. uri = Some p \<and> toLowerCase (extname plat p) \<in> {''.pptx'', ''.ppt''}
          \<longrightarrow> openPPTCommand plat uri = [OpenWith p ''muty-pptviewer.preview''])
   \<and> (uri = None \<longrightarrow> openPPTCommand plat uri = [ShowErrorMessage SelectFile])
   \<and> (\<forall>p. uri = Some p \<and> toLowerCase (extname plat p) \<notin> {''.pptx'', ''.ppt''}
          \<longrightarrow> openPPTCommand plat uri = [ShowErrorMessage SelectValidFile])"
  by (cases uri) (auto simp: openPPTCommand_def Let_def)

theorem openPPTCommand_guard_witness:
  "toLowerCase (extname ''linux'' ''/d/a.PPTX'') \<in> {''.pptx'', ''.ppt''}
   \<and> openPPTCommand ''linux'' (Some ''/d/a.PPTX'')
       = [OpenWith ''/d/a.PPTX'' ''muty-pptviewer.preview'']
   \<and> toLowerCase (extname ''linux'' ''/d/a.pdf'') \<notin> {''.pptx'', ''.ppt''}
   \<and> openPPTCommand ''linux'' (Some ''/d/a.pdf'') = [ShowErrorMessage SelectValidFile]
   \<and> openPPTCommand ''linux'' None = [ShowErrorMessage SelectFile]"
  using openPPTCommand_guard [of "''linux''" "Some ''/d/a.PPTX''"]
    openPPTCommand_guard [of "''linux''" "Some ''/d/a.pdf''"]
    openPPTCommand_guard [of "''linux''" None]
  by (simp add: ex_ext)

end
